theory Spec2Isabelle
  imports Complex_Main "HOL-Library.Char_ord" "HOL-Library.Sublist"
begin

section \<open>JavaScript strings\<close>

text \<open>
  Strings are byte strings read as ASCII: the white space of \<open>trim\<close> and of the regular
  expression class \<open>\s\<close> is tab, line feed, vertical tab, form feed, carriage return and
  space, and the case mappings move the letters A to Z only.
\<close>

definition is_space :: "char \<Rightarrow> bool" where
  "is_space c = (c \<in> set [CHR 0x09, CHR 0x0A, CHR 0x0B, CHR 0x0C, CHR 0x0D, CHR '' ''])"

definition is_digit :: "char \<Rightarrow> bool" where
  "is_digit c = (CHR ''0'' \<le> c \<and> c \<le> CHR ''9'')"

definition is_lower :: "char \<Rightarrow> bool" where
  "is_lower c = (CHR ''a'' \<le> c \<and> c \<le> CHR ''z'')"

definition is_upper :: "char \<Rightarrow> bool" where
  "is_upper c = (CHR ''A'' \<le> c \<and> c \<le> CHR ''Z'')"

definition is_alpha :: "char \<Rightarrow> bool" where
  "is_alpha c = (is_lower c \<or> is_upper c)"

definition is_word :: "char \<Rightarrow> bool" where
  "is_word c = (is_alpha c \<or> is_digit c \<or> c = CHR ''_'')"

definition lower_char :: "char \<Rightarrow> char" where
  "lower_char c =
     (case map_of (zip ''ABCDEFGHIJKLMNOPQRSTUVWXYZ'' ''abcdefghijklmnopqrstuvwxyz'') c of
        Some d \<Rightarrow> d | None \<Rightarrow> c)"

definition upper_char :: "char \<Rightarrow> char" where
  "upper_char c =
     (case map_of (zip ''abcdefghijklmnopqrstuvwxyz'' ''ABCDEFGHIJKLMNOPQRSTUVWXYZ'') c of
        Some d \<Rightarrow> d | None \<Rightarrow> c)"

definition toLowerCase :: "string \<Rightarrow> string" where
  "toLowerCase s = map lower_char s"


definition trim :: "string \<Rightarrow> string" where
  "trim s = rev (dropWhile is_space (rev (dropWhile is_space s)))"

text \<open>\<open>s.includes(t)\<close> and \<open>s.indexOf(t)\<close>.\<close>

fun str_includes :: "string \<Rightarrow> string \<Rightarrow> bool" where
  "str_includes [] t = (t = [])"
| "str_includes (c # s) t = (prefix t (c # s) \<or> str_includes s t)"

fun indexOf :: "string \<Rightarrow> string \<Rightarrow> nat option" where
  "indexOf [] t = (if t = [] then Some 0 else None)"
| "indexOf (c # s) t = (if prefix t (c # s) then Some 0 else map_option Suc (indexOf s t))"

text \<open>\<open>s.split(t)[0]\<close> for a non-empty separator: the text before its first occurrence.\<close>

definition split_first :: "string \<Rightarrow> string \<Rightarrow> string" where
  "split_first s t = (case indexOf s t of None \<Rightarrow> s | Some i \<Rightarrow> take i s)"

section \<open>Regular expressions\<close>

text \<open>
  The regular expressions of the source are values of \<open>rx\<close>, run by a backtracking
  matcher. A matcher state is the character before the position (for \<open>\b\<close> and \<open>^\<close>),
  the rest of the input and the captures made so far; \<open>rx_m\<close> lists the states a match
  can end in, in the order in which JavaScript's matcher tries them (the left alternative
  first, the longest repetition first), so that the head of the list is the match it
  takes. A repetition gives up an iteration that consumes nothing.
\<close>

type_synonym mstate = "char option \<times> string \<times> (nat \<times> string) list"

datatype rx =
    Eps
  | Chr char
  | Cls "char \<Rightarrow> bool"
  | Cat rx rx
  | Alt rx rx
  | Star rx
  | Grp nat rx
  | WordB
  | Bol
  | Eol

primrec star_iter :: "(mstate \<Rightarrow> mstate list) \<Rightarrow> nat \<Rightarrow> mstate \<Rightarrow> mstate list" where
  "star_iter f 0 st = [st]"
| "star_iter f (Suc n) st =
     concat (map (\<lambda>st'. if length (fst (snd st')) < length (fst (snd st))
                          then star_iter f n st' else [])
                 (f st)) @ [st]"

definition at_boundary :: "char option \<Rightarrow> string \<Rightarrow> bool" where
  "at_boundary p s =
     ((case p of None \<Rightarrow> False | Some c \<Rightarrow> is_word c) \<noteq>
      (case s of [] \<Rightarrow> False | c # _ \<Rightarrow> is_word c))"

text \<open>The flag \<open>ci\<close> is the \<open>i\<close> flag of the expression.\<close>

primrec rx_m :: "rx \<Rightarrow> bool \<Rightarrow> mstate \<Rightarrow> mstate list" where
  "rx_m Eps ci = (\<lambda>st. [st])"
| "rx_m (Chr a) ci = (\<lambda>(p, s, cs). case s of [] \<Rightarrow> []
       | c # t \<Rightarrow> if (if ci then upper_char c = upper_char a else c = a)
                  then [(Some c, t, cs)] else [])"
| "rx_m (Cls P) ci = (\<lambda>(p, s, cs). case s of [] \<Rightarrow> []
       | c # t \<Rightarrow> if (if ci then P c \<or> P (lower_char c) \<or> P (upper_char c) else P c)
                  then [(Some c, t, cs)] else [])"
| "rx_m (Cat r1 r2) ci = (\<lambda>st. concat (map (rx_m r2 ci) (rx_m r1 ci st)))"
| "rx_m (Alt r1 r2) ci = (\<lambda>st. rx_m r1 ci st @ rx_m r2 ci st)"
| "rx_m (Star r) ci = (\<lambda>st. star_iter (rx_m r ci) (length (fst (snd st))) st)"
| "rx_m (Grp i r) ci = (\<lambda>(p, s, cs).
       map (\<lambda>(p', s', cs'). (p', s', (i, take (length s - length s') s) # cs'))
           (rx_m r ci (p, s, cs)))"
| "rx_m WordB ci = (\<lambda>(p, s, cs). if at_boundary p s then [(p, s, cs)] else [])"
| "rx_m Bol ci = (\<lambda>(p, s, cs). if p = None then [(p, s, cs)] else [])"
| "rx_m Eol ci = (\<lambda>(p, s, cs). if s = [] then [(p, s, cs)] else [])"

definition Plus :: "rx \<Rightarrow> rx" where
  "Plus r = Cat r (Star r)"

definition Opt :: "rx \<Rightarrow> rx" where
  "Opt r = Alt r Eps"

definition Lit :: "string \<Rightarrow> rx" where
  "Lit s = foldr (\<lambda>c r. Cat (Chr c) r) s Eps"

fun Alts :: "rx list \<Rightarrow> rx" where
  "Alts [] = Cls (\<lambda>_. False)"
| "Alts [r] = r"
| "Alts (r # rs) = Alt r (Alts rs)"

fun Cats :: "rx list \<Rightarrow> rx" where
  "Cats [] = Eps"
| "Cats [r] = r"
| "Cats (r # rs) = Cat r (Cats rs)"

text \<open>The character classes \<open>\s\<close>, \<open>\d\<close> and \<open>[^...]\<close>.\<close>

definition rx_s :: rx where
  "rx_s = Cls is_space"

definition rx_d :: rx where
  "rx_d = Cls is_digit"

definition rx_not :: "string \<Rightarrow> rx" where
  "rx_not cs = Cls (\<lambda>c. c \<notin> set cs)"

text \<open>
  The leftmost match: the text skipped before it and the state it ends in
  (\<open>RegExp.prototype.exec\<close> from the start of the string).
\<close>

fun rx_find :: "rx \<Rightarrow> bool \<Rightarrow> char option \<Rightarrow> string \<Rightarrow> (string \<times> mstate) option" where
  "rx_find r ci p s =
     (case rx_m r ci (p, s, []) of
        st # _ \<Rightarrow> Some ([], st)
      | [] \<Rightarrow> (case s of [] \<Rightarrow> None
               | c # t \<Rightarrow> map_option (\<lambda>(pre, st). (c # pre, st)) (rx_find r ci (Some c) t)))"

definition rx_test :: "rx \<Rightarrow> bool \<Rightarrow> string \<Rightarrow> bool" where
  "rx_test r ci s = (rx_find r ci None s \<noteq> None)"

text \<open>\<open>s.match(r)\<close> without the \<open>g\<close> flag: the matched text and the captures.\<close>

definition rx_match :: "rx \<Rightarrow> bool \<Rightarrow> string \<Rightarrow> (string \<times> (nat \<times> string) list) option" where
  "rx_match r ci s =
     (case rx_find r ci None s of
        None \<Rightarrow> None
      | Some (pre, (p', rest, caps)) \<Rightarrow>
          Some (take (length s - length pre - length rest) (drop (length pre) s), caps))"

text \<open>
  \<open>s.replace(r, f)\<close> without the \<open>g\<close> flag replaces the leftmost match, with it every
  match from left to right; \<open>f\<close> is given the matched text and the captures.
\<close>

definition rx_replace ::
    "rx \<Rightarrow> bool \<Rightarrow> (string \<Rightarrow> (nat \<times> string) list \<Rightarrow> string) \<Rightarrow> string \<Rightarrow> string" where
  "rx_replace r ci f s =
     (case rx_find r ci None s of
        None \<Rightarrow> s
      | Some (pre, (p', rest, caps)) \<Rightarrow>
          pre @ f (take (length s - length pre - length rest) (drop (length pre) s)) caps @ rest)"

fun rx_replace_all ::
    "rx \<Rightarrow> bool \<Rightarrow> (string \<Rightarrow> (nat \<times> string) list \<Rightarrow> string) \<Rightarrow> char option \<Rightarrow> string \<Rightarrow> string" where
  "rx_replace_all r ci f p s =
     (case rx_m r ci (p, s, []) of
        (p', s', caps) # _ \<Rightarrow>
          if length s' < length s
          then f (take (length s - length s') s) caps @ rx_replace_all r ci f p' s'
          else f [] caps @ (case s of [] \<Rightarrow> [] | c # t \<Rightarrow> c # rx_replace_all r ci f (Some c) t)
      | [] \<Rightarrow> (case s of [] \<Rightarrow> [] | c # t \<Rightarrow> c # rx_replace_all r ci f (Some c) t))"

definition replace_all_by :: "rx \<Rightarrow> bool \<Rightarrow> string \<Rightarrow> string \<Rightarrow> string" where
  "replace_all_by r ci new s = rx_replace_all r ci (\<lambda>_ _. new) None s"

definition replace_by :: "rx \<Rightarrow> bool \<Rightarrow> string \<Rightarrow> string \<Rightarrow> string" where
  "replace_by r ci new s = rx_replace r ci (\<lambda>_ _. new) s"

section \<open>JavaScript values\<close>

text \<open>
  A number is a real or one of the three non-finite values: the rounding of binary64
  is not modelled, its overflow to an infinity is. A value is what \<open>JSON.parse\<close> and
  the XML parser return, and \<open>undefined\<close>. Objects are read as carrying no property
  named \<open>toString\<close> or \<open>valueOf\<close> of their own, so that converting one to a primitive
  never raises.
\<close>

datatype jsnum = Fin real | PInf | NInf | NaN

datatype jsval =
    Undefined
  | Null
  | Bool bool
  | Num jsnum
  | Str string
  | Arr "jsval list"
  | Obj "(string \<times> jsval) list"

fun isFinite :: "jsnum \<Rightarrow> bool" where
  "isFinite (Fin r) = True"
| "isFinite n = False"

text \<open>\<open>Number.isFinite(v)\<close>: no conversion, a string is not finite.\<close>

fun Number_isFinite :: "jsval \<Rightarrow> bool" where
  "Number_isFinite (Num n) = isFinite n"
| "Number_isFinite v = False"

fun num_le :: "jsnum \<Rightarrow> jsnum \<Rightarrow> bool" where
  "num_le NaN y = False"
| "num_le x NaN = False"
| "num_le NInf y = True"
| "num_le x PInf = True"
| "num_le (Fin a) (Fin b) = (a \<le> b)"
| "num_le x y = False"

fun num_less :: "jsnum \<Rightarrow> jsnum \<Rightarrow> bool" where
  "num_less NaN y = False"
| "num_less x NaN = False"
| "num_less PInf y = False"
| "num_less x NInf = False"
| "num_less (Fin a) (Fin b) = (a < b)"
| "num_less x y = True"

fun truthy :: "jsval \<Rightarrow> bool" where
  "truthy Undefined = False"
| "truthy Null = False"
| "truthy (Bool b) = b"
| "truthy (Num (Fin r)) = (r \<noteq> 0)"
| "truthy (Num NaN) = False"
| "truthy (Num n) = True"
| "truthy (Str s) = (s \<noteq> [])"
| "truthy v = True"

fun nullish :: "jsval \<Rightarrow> bool" where
  "nullish Undefined = True"
| "nullish Null = True"
| "nullish v = False"

text \<open>\<open>a || b\<close> and \<open>a ?? b\<close> on values.\<close>

definition or_else :: "jsval \<Rightarrow> jsval \<Rightarrow> jsval" where
  "or_else a b = (if truthy a then a else b)"

definition coalesce :: "jsval \<Rightarrow> jsval \<Rightarrow> jsval" where
  "coalesce a b = (if nullish a then b else a)"

text \<open>\<open>a && b\<close> on values.\<close>

definition and_then :: "jsval \<Rightarrow> jsval \<Rightarrow> jsval" where
  "and_then a b = (if truthy a then b else a)"

fun elems :: "jsval \<Rightarrow> jsval list" where
  "elems (Arr xs) = xs"
| "elems v = []"

text \<open>
  \<open>v?.k\<close>: the property of an object, \<open>undefined\<close> on every other value (the keys read
  in the source are none of a string's or an array's own). The plain \<open>v.k\<close> raises a
  TypeError on \<open>null\<close> and \<open>undefined\<close>; where the source reads a value that can be one
  of them, the model tests \<open>nullish\<close> first.
\<close>

fun getq :: "jsval \<Rightarrow> string \<Rightarrow> jsval" where
  "getq (Obj kvs) k = (case map_of kvs k of Some v \<Rightarrow> v | None \<Rightarrow> Undefined)"
| "getq v k = Undefined"

text \<open>\<open>v[0]\<close> and \<open>v[1]\<close>: an element of an array, a character of a string.\<close>

function nat_str :: "nat \<Rightarrow> string" where
  "nat_str n = (if n < 10 then [''0123456789'' ! n] else nat_str (n div 10) @ [''0123456789'' ! (n mod 10)])"
  by pat_completeness auto
termination
  by (relation "measure id") auto

fun at_index :: "jsval \<Rightarrow> nat \<Rightarrow> jsval" where
  "at_index (Arr xs) i = (if i < length xs then xs ! i else Undefined)"
| "at_index (Str s) i = (if i < length s then Str [s ! i] else Undefined)"
| "at_index (Obj kvs) i = (case map_of kvs (nat_str i) of Some v \<Rightarrow> v | None \<Rightarrow> Undefined)"
| "at_index v i = Undefined"

text \<open>
  The own enumerable properties an object spread \<open>{...v}\<close> copies: those of an object,
  the indexed elements of an array and the indexed characters of a string.
\<close>

fun spread :: "jsval \<Rightarrow> (string \<times> jsval) list" where
  "spread (Obj kvs) = kvs"
| "spread (Arr xs) = zip (map nat_str [0..<length xs]) xs"
| "spread (Str s) = zip (map nat_str [0..<length s]) (map (\<lambda>c. Str [c]) s)"
| "spread v = []"

fun isArray :: "jsval \<Rightarrow> bool" where
  "isArray (Arr xs) = True"
| "isArray v = False"

fun is_object :: "jsval \<Rightarrow> bool" where
  "is_object (Arr xs) = True"
| "is_object (Obj kvs) = True"
| "is_object Null = True"
| "is_object v = False"

subsection \<open>Conversion to a number\<close>

definition digit_val :: "char \<Rightarrow> nat" where
  "digit_val c = of_char c - 48"

definition digits_val :: "string \<Rightarrow> nat" where
  "digits_val s = foldl (\<lambda>a c. 10 * a + digit_val c) 0 s"

definition hex_val :: "char \<Rightarrow> nat option" where
  "hex_val c =
     (if is_digit c then Some (of_char c - 48)
      else if CHR ''a'' \<le> c \<and> c \<le> CHR ''f'' then Some (of_char c - 87)
      else if CHR ''A'' \<le> c \<and> c \<le> CHR ''F'' then Some (of_char c - 55)
      else None)"

definition radix_val :: "nat \<Rightarrow> string \<Rightarrow> nat option" where
  "radix_val b s =
     (if s \<noteq> [] \<and> list_all (\<lambda>c. case hex_val c of Some d \<Rightarrow> d < b | None \<Rightarrow> False) s
      then Some (foldl (\<lambda>a c. b * a + the (hex_val c)) 0 s) else None)"

text \<open>A real as a number: beyond the largest binary64 it is an infinity.\<close>

definition to_num :: "real \<Rightarrow> jsnum" where
  "to_num r =
     (if 2 ^ 1024 - 2 ^ 970 \<le> r then PInf
      else if r \<le> - (2 ^ 1024 - 2 ^ 970) then NInf
      else Fin r)"

text \<open>The decimal literals: digits, an optional fraction, an optional exponent.\<close>

definition dec_exponent :: "string \<Rightarrow> int option" where
  "dec_exponent w =
     (let (neg, ds) = (case w of c # v \<Rightarrow>
                         if c = CHR ''-'' then (True, v)
                         else if c = CHR ''+'' then (False, v) else (False, w)
                       | [] \<Rightarrow> (False, w))
      in if ds \<noteq> [] \<and> list_all is_digit ds
         then Some (if neg then - int (digits_val ds) else int (digits_val ds)) else None)"

definition dec_unsigned :: "string \<Rightarrow> real option" where
  "dec_unsigned u =
     (let ip = takeWhile is_digit u; r1 = dropWhile is_digit u;
          (fp, r2) = (case r1 of c # v \<Rightarrow>
                        if c = CHR ''.'' then (takeWhile is_digit v, dropWhile is_digit v)
                        else ([], r1)
                      | [] \<Rightarrow> ([], r1));
          mant = real (digits_val ip) + real (digits_val fp) / 10 ^ length fp
      in if ip = [] \<and> fp = [] then None
         else (case r2 of
                 [] \<Rightarrow> Some mant
               | e # w \<Rightarrow>
                   if e = CHR ''e'' \<or> e = CHR ''E''
                   then (case dec_exponent w of
                           None \<Rightarrow> None
                         | Some x \<Rightarrow> Some (if x < 0 then mant / 10 ^ nat (- x) else mant * 10 ^ nat x))
                   else None))"

definition StringToNumber :: "string \<Rightarrow> jsnum" where
  "StringToNumber s =
     (let t = trim s in
      if t = [] then Fin 0
      else if t = ''Infinity'' \<or> t = ''+Infinity'' then PInf
      else if t = ''-Infinity'' then NInf
      else if take 2 t = ''0x'' \<or> take 2 t = ''0X''
        then (case radix_val 16 (drop 2 t) of Some n \<Rightarrow> to_num (real n) | None \<Rightarrow> NaN)
      else if take 2 t = ''0o'' \<or> take 2 t = ''0O''
        then (case radix_val 8 (drop 2 t) of Some n \<Rightarrow> to_num (real n) | None \<Rightarrow> NaN)
      else if take 2 t = ''0b'' \<or> take 2 t = ''0B''
        then (case radix_val 2 (drop 2 t) of Some n \<Rightarrow> to_num (real n) | None \<Rightarrow> NaN)
      else (case t of
              c # u \<Rightarrow>
                if c = CHR ''-'' then (case dec_unsigned u of Some r \<Rightarrow> to_num (- r) | None \<Rightarrow> NaN)
                else if c = CHR ''+'' then (case dec_unsigned u of Some r \<Rightarrow> to_num r | None \<Rightarrow> NaN)
                else (case dec_unsigned t of Some r \<Rightarrow> to_num r | None \<Rightarrow> NaN)
            | [] \<Rightarrow> Fin 0))"

text \<open>
  \<open>Number(v)\<close>. An array converts through its string: the empty array to 0, an array
  of one element to what the element's string reads as (a number prints as a string
  that reads back as itself), a longer one to NaN since its string holds a comma.
\<close>

fun ToNumber :: "jsval \<Rightarrow> jsnum" where
  "ToNumber Undefined = NaN"
| "ToNumber Null = Fin 0"
| "ToNumber (Bool b) = Fin (if b then 1 else 0)"
| "ToNumber (Num n) = n"
| "ToNumber (Str s) = StringToNumber s"
| "ToNumber (Obj kvs) = NaN"
| "ToNumber (Arr []) = Fin 0"
| "ToNumber (Arr [Undefined]) = Fin 0"
| "ToNumber (Arr [Null]) = Fin 0"
| "ToNumber (Arr [Bool b]) = NaN"
| "ToNumber (Arr [Num n]) = n"
| "ToNumber (Arr [Str s]) = StringToNumber s"
| "ToNumber (Arr [Obj kvs]) = NaN"
| "ToNumber (Arr [Arr xs]) = ToNumber (Arr xs)"
| "ToNumber (Arr (x # y # zs)) = NaN"

subsection \<open>The host\<close>

text \<open>
  What the program takes from its host and its libraries, as parameters of the model:
  how a number prints (\<open>String(n)\<close>), \<open>JSON.parse\<close> (\<open>None\<close> where it raises a
  SyntaxError), \<open>new Date(s)\<close> followed by \<open>toISOString()\<close> (\<open>None\<close> for an
  invalid date; \<open>Date_ISO_ms\<close> for a number of milliseconds), the XML parser
  (\<open>None\<close> where it raises) and the HTML parser, read as the rows of the first table
  of the document (\<open>None\<close> when it has no table): each row the list of its cells,
  a cell with its tag (\<open>td\<close> or \<open>th\<close>), its text and the \<open>href\<close> of the links inside it.
\<close>

record html_cell =
  is_td :: bool
  cell_text :: string
  cell_links :: "string list"

record host =
  Number_toString :: "jsnum \<Rightarrow> string"
  JSON_parse :: "string \<Rightarrow> jsval option"
  Date_ISO :: "string \<Rightarrow> string option"
  Date_ISO_ms :: "real \<Rightarrow> string"
  XML_parse :: "string \<Rightarrow> jsval option"
  HTML_first_table :: "string \<Rightarrow> html_cell list list option"

definition intercalate :: "string \<Rightarrow> string list \<Rightarrow> string" where
  "intercalate sep xs = (case xs of [] \<Rightarrow> [] | x # ys \<Rightarrow> x @ concat (map (\<lambda>y. sep @ y) ys))"

fun ToString :: "host \<Rightarrow> jsval \<Rightarrow> string" where
  "ToString h Undefined = ''undefined''"
| "ToString h Null = ''null''"
| "ToString h (Bool b) = (if b then ''true'' else ''false'')"
| "ToString h (Num n) = Number_toString h n"
| "ToString h (Str s) = s"
| "ToString h (Obj kvs) = ''[object Object]''"
| "ToString h (Arr xs) =
     intercalate '','' (map (\<lambda>x. if nullish x then [] else ToString h x) xs)"

text \<open>
  The errors the program raises. The transport is the capability of the specification,
  a request answered by a status and a body: a request that the network fails is not
  modelled.
\<close>

datatype error =
    KeyNotSet
  | GeocodeHTTP nat string
  | NoResults
  | SyntaxError
  | TypeError
  | RangeError
  | UrlNotSet
  | AdapterHTTP nat string
  | ParserError

text \<open>
  \<open>String(v)\<close> where the conversion can raise. The values are data read by a parser, so
  no property of an object is a function: an object with a property named \<open>toString\<close> of
  its own has no callable \<open>toString\<close>, and what \<open>valueOf\<close> returns is no primitive, so
  converting it raises a TypeError. An array converts its elements.
\<close>

fun ToStringE :: "host \<Rightarrow> jsval \<Rightarrow> error + string"
  and ToStringEs :: "host \<Rightarrow> jsval list \<Rightarrow> error + string list" where
  "ToStringE h (Obj kvs) =
     (if map_of kvs ''toString'' \<noteq> None then Inl TypeError else Inr ''[object Object]'')"
| "ToStringE h (Arr xs) =
     (case ToStringEs h xs of Inl e \<Rightarrow> Inl e | Inr ss \<Rightarrow> Inr (intercalate '','' ss))"
| "ToStringE h Undefined = Inr ''undefined''"
| "ToStringE h Null = Inr ''null''"
| "ToStringE h (Bool b) = Inr (if b then ''true'' else ''false'')"
| "ToStringE h (Num n) = Inr (Number_toString h n)"
| "ToStringE h (Str s) = Inr s"
| "ToStringEs h [] = Inr []"
| "ToStringEs h (x # xs) =
     (case (if nullish x then Inr [] else ToStringE h x) of
        Inl e \<Rightarrow> Inl e
      | Inr s \<Rightarrow> (case ToStringEs h xs of Inl e \<Rightarrow> Inl e | Inr ss \<Rightarrow> Inr (s # ss)))"

section \<open>The geocode service (services/geocode.js)\<close>

text \<open>\<open>normalizeAddress\<close> on a string: trim, collapse white space, lowercase.\<close>

definition ws_plus :: rx where
  "ws_plus = Plus rx_s"

definition normalizeAddress :: "string \<Rightarrow> string" where
  "normalizeAddress addr = toLowerCase (replace_all_by ws_plus False '' '' (trim addr))"

text \<open>On any value: \<open>String(addr || "")\<close> first.\<close>

definition normalizeAddressV :: "host \<Rightarrow> jsval \<Rightarrow> string" where
  "normalizeAddressV h addr = normalizeAddress (ToString h (or_else addr (Str [])))"

text \<open>What replacing every \<open>\s+\<close> by a space computes, as a recursion on the string.\<close>

function collapse_ws :: "string \<Rightarrow> string" where
  "collapse_ws [] = []"
| "collapse_ws (c # s) =
     (if is_space c then CHR '' '' # collapse_ws (dropWhile is_space s) else c # collapse_ws s)"
  by pat_completeness auto
termination
  by (relation "measure length") (auto simp: le_imp_less_Suc length_dropWhile_le)

definition edges_ok :: "string \<Rightarrow> bool" where
  "edges_ok s = (s = [] \<or> (\<not> is_space (hd s) \<and> \<not> is_space (last s)))"

subsection \<open>normalizeAddress on every string\<close>

text \<open>
  A JavaScript string is a sequence of UTF-16 code units, here natural numbers. The white
  space of \<open>trim\<close> and of the class \<open>\s\<close> is the same set, the WhiteSpace and LineTerminator
  code points of ECMA-262: tab, line feed, vertical tab, form feed, carriage return,
  space, no-break space, U+1680, U+2000 to U+200A, U+2028, U+2029, U+202F, U+205F, U+3000
  and U+FEFF. Each is one code unit, and without the \<open>u\<close> flag \<open>\s\<close> matches one code unit.
\<close>

type_synonym ustring = "nat list"

definition is_white :: "nat \<Rightarrow> bool" where
  "is_white c =
     (c \<in> set [0x09, 0x0A, 0x0B, 0x0C, 0x0D, 0x20, 0xA0, 0x1680, 0x2028, 0x2029, 0x202F, 0x205F,
                0x3000, 0xFEFF] \<or>
      (0x2000 \<le> c \<and> c \<le> 0x200A))"

definition trim16 :: "ustring \<Rightarrow> ustring" where
  "trim16 s = rev (dropWhile is_white (rev (dropWhile is_white s)))"

text \<open>
  \<open>s.replace(/\s+/g, " ")\<close>: \<open>\s+\<close> is greedy and the search goes from left to right, so
  each maximal run of white space becomes one space (for the byte strings above, this is
  what the matcher computes: lemma \<open>replace_ws_collapse\<close>).
\<close>

function replace_white_runs :: "ustring \<Rightarrow> ustring" where
  "replace_white_runs [] = []"
| "replace_white_runs (c # s) =
     (if is_white c then 0x20 # replace_white_runs (dropWhile is_white s)
      else c # replace_white_runs s)"
  by pat_completeness auto
termination
  by (relation "measure length") (auto simp: le_imp_less_Suc length_dropWhile_le)

text \<open>
  \<open>toLowerCase\<close> is the case mapping of the Unicode tables of the host, a parameter of
  the model.
\<close>

definition normalizeAddress16 :: "(ustring \<Rightarrow> ustring) \<Rightarrow> ustring \<Rightarrow> ustring" where
  "normalizeAddress16 toLowerCase16 addr = toLowerCase16 (replace_white_runs (trim16 addr))"

text \<open>
  What is used of the case mapping: lowering a lowered string changes nothing; a space
  is kept and separates what is lowered before it from what is lowered after it (the one
  rule of \<open>toLowerCase\<close> that looks at the context, the final sigma, looks at letters and
  at characters that case mapping ignores, and a space is neither); a string without
  white space is lowered to a string without white space, and to the empty string only if
  it is empty.
\<close>

definition lowering :: "(ustring \<Rightarrow> ustring) \<Rightarrow> bool" where
  "lowering f =
     ((\<forall>s. f (f s) = f s) \<and>
      (\<forall>a b. f (a @ 0x20 # b) = f a @ 0x20 # f b) \<and>
      (\<forall>s. (\<forall>c \<in> set s. \<not> is_white c) \<longrightarrow> (\<forall>c \<in> set (f s). \<not> is_white c) \<and> (f s = [] \<longleftrightarrow> s = [])))"

text \<open>Words without white space, one space between two of them.\<close>

inductive spaced :: "ustring \<Rightarrow> bool" where
  one: "w \<noteq> [] \<Longrightarrow> \<forall>c \<in> set w. \<not> is_white c \<Longrightarrow> spaced w"
| more: "w \<noteq> [] \<Longrightarrow> \<forall>c \<in> set w. \<not> is_white c \<Longrightarrow> spaced t \<Longrightarrow> spaced (w @ 0x20 # t)"

text \<open>
  The code units of a byte string, and the lowering of the letters A to Z alone, which is
  \<open>toLowerCase\<close> on ASCII text.
\<close>

definition units :: "string \<Rightarrow> ustring" where
  "units s = map of_char s"

definition ascii_lower16 :: "ustring \<Rightarrow> ustring" where
  "ascii_lower16 s = map (\<lambda>c. if 0x41 \<le> c \<and> c \<le> 0x5A then c + 0x20 else c) s"

definition ascii :: "string \<Rightarrow> bool" where
  "ascii s = (\<forall>c \<in> set s. (of_char c :: nat) < 128)"

record http_response =
  statusCode :: nat
  body :: string

record geo_result =
  g_lat :: jsval
  g_lon :: jsval
  formatted :: jsval

text \<open>
  The environment of the module: the API key, the time to live of a cache entry in
  seconds, and the answer of the geocoding service to the query \<open>q = address\<close>.
\<close>

record geo_env =
  KEY :: "string option"
  TTL :: int
  upstream :: "string \<Rightarrow> http_response"

text \<open>
  The state: the module's cache (from a normalized query to the result and the time
  it expires), the clock \<open>Date.now()\<close>, and, not in the source, the addresses the
  resolver has been called with, oldest first.
\<close>

record geo_state =
  cache :: "string \<Rightarrow> (geo_result \<times> int) option"
  now :: int
  calls :: "string list"

definition has_key :: "geo_env \<Rightarrow> bool" where
  "has_key env = (case KEY env of None \<Rightarrow> False | Some k \<Rightarrow> k \<noteq> [])"

definition cached :: "geo_state \<Rightarrow> string \<Rightarrow> geo_result option" where
  "cached st q = (case cache st q of
                    None \<Rightarrow> None
                  | Some (d, expiresAt) \<Rightarrow> if now st < expiresAt then Some d else None)"

definition top_hit :: "jsval \<Rightarrow> geo_result" where
  "top_hit b =
     (let hit = at_index (getq b ''results'') 0
      in \<lparr>g_lat = getq (getq hit ''geometry'') ''lat'',
          g_lon = getq (getq hit ''geometry'') ''lng'',
          formatted = getq hit ''formatted''\<rparr>)"

definition geocode ::
    "host \<Rightarrow> geo_env \<Rightarrow> string \<Rightarrow> geo_state \<Rightarrow> (error + geo_result) \<times> geo_state" where
  "geocode h env address st =
     (let st1 = st\<lparr>calls := calls st @ [address]\<rparr> in
      if \<not> has_key env then (Inl KeyNotSet, st1)
      else
        let q = normalizeAddress address in
        case cached st q of
          Some d \<Rightarrow> (Inr d, st1)
        | None \<Rightarrow>
            let res = upstream env address in
            if 400 \<le> statusCode res
            then (Inl (GeocodeHTTP (statusCode res) (take 200 (body res))), st1)
            else
              (case JSON_parse h (body res) of
                 None \<Rightarrow> (Inl SyntaxError, st1)
               | Some b \<Rightarrow>
                   let data = top_hit b in
                   if \<not> Number_isFinite (g_lat data) \<or> \<not> Number_isFinite (g_lon data)
                   then (Inl NoResults, st1)
                   else (Inr data,
                         st1\<lparr>cache := (cache st1)(q := Some (data, now st + TTL env * 1000))\<rparr>)))"

text \<open>The top hit of a response has a finite latitude and longitude.\<close>

definition finite_hit :: "host \<Rightarrow> http_response \<Rightarrow> bool" where
  "finite_hit h res =
     (case JSON_parse h (body res) of
        None \<Rightarrow> False
      | Some b \<Rightarrow> Number_isFinite (g_lat (top_hit b)) \<and> Number_isFinite (g_lon (top_hit b)))"

definition finite_result :: "geo_result \<Rightarrow> bool" where
  "finite_result d = (Number_isFinite (g_lat d) \<and> Number_isFinite (g_lon d))"







section \<open>The Portland adapter (adapters/pdx.js)\<close>

text \<open>
  A source row and an emitted place, with the fields the coordinates and the address
  flow through. The id (a random string when the feed has none), the name, the category
  and the extras of the source are copied from the row to the place and decide nothing:
  they are left out.
\<close>

record pdx_row =
  r_lat :: jsval
  r_lon :: jsval
  r_address :: jsval
  r_updatedAt :: jsval
  r_incidentId :: jsval

record place =
  p_lat :: jsnum
  p_lon :: jsnum
  p_address :: jsval
  p_callTimeReceived :: jsval
  p_updatedAt :: jsval

fun map_err :: "('a \<Rightarrow> error + 'b) \<Rightarrow> 'a list \<Rightarrow> error + 'b list" where
  "map_err f [] = Inr []"
| "map_err f (x # xs) =
     (case f x of
        Inl e \<Rightarrow> Inl e
      | Inr y \<Rightarrow> (case map_err f xs of Inl e \<Rightarrow> Inl e | Inr ys \<Rightarrow> Inr (y # ys)))"

definition pdx_withCityState :: "host \<Rightarrow> jsval \<Rightarrow> jsval" where
  "pdx_withCityState h address =
     (if \<not> truthy address then Str ''Portland, OR''
      else
        let lower = toLowerCase (ToString h address) in
        if str_includes lower ''portland'' \<or> str_includes lower '' or'' \<or> str_includes lower ''oregon''
        then address
        else Str (ToString h address @ '', Portland, OR''))"

text \<open>
  \<open>safeISO\<close>: a number goes through \<open>new Date(ts).toISOString()\<close>, which raises a
  RangeError outside the range of dates (8.64e15 milliseconds either side of the epoch).
\<close>

definition safeISO :: "host \<Rightarrow> jsval \<Rightarrow> error + jsval" where
  "safeISO h ts =
     (if \<not> truthy ts then Inr Undefined
      else case ts of
          Num n \<Rightarrow> (case n of
                      Fin r \<Rightarrow> if \<bar>r\<bar> \<le> 8640000000000000 then Inr (Str (Date_ISO_ms h r))
                               else Inl RangeError
                    | _ \<Rightarrow> Inl RangeError)
        | Bool b \<Rightarrow> Inr (Str (Date_ISO_ms h 1))
        | v \<Rightarrow> (case Date_ISO h (ToString h v) of Some s \<Rightarrow> Inr (Str s) | None \<Rightarrow> Inr Undefined))"

definition tag_rx :: rx where
  "tag_rx = Cats [Chr CHR ''<'', Star (rx_not ''>''), Chr CHR ''>'']"

definition stripHtml :: "string \<Rightarrow> string" where
  "stripHtml s = trim (replace_all_by ws_plus False '' '' (replace_all_by tag_rx False '' '' s))"

subsection \<open>The description of a placemark\<close>

definition rep12 :: "rx \<Rightarrow> rx" where
  "rep12 r = Cat r (Opt r)"

definition TS_INLINE :: rx where
  "TS_INLINE =
     Cats [WordB,
           Alts (map Lit [''Sun'', ''Mon'', ''Tue'', ''Tues'', ''Wed'', ''Thu'', ''Thur'', ''Thurs'',
                          ''Fri'', ''Sat'']),
           Opt (Lit ''day''), Chr CHR '','', Plus rx_s, Plus (Cls is_alpha), Plus rx_s,
           rep12 rx_d, Chr CHR '','', Plus rx_s, rx_d, rx_d, rx_d, rx_d, Plus rx_s,
           rep12 rx_d, Chr CHR '':'', rx_d, rx_d, Plus rx_s, Alt (Lit ''AM'') (Lit ''PM''), WordB]"

definition TS_ANYWHERE :: rx where
  "TS_ANYWHERE =
     Cats [WordB,
           Alts (map Lit [''Sunday'', ''Monday'', ''Tuesday'', ''Wednesday'', ''Thursday'', ''Friday'',
                          ''Saturday'']),
           Chr CHR '','', Plus rx_s, Plus (Cls is_alpha), Plus rx_s,
           rep12 rx_d, Chr CHR '','', Plus rx_s, rx_d, rx_d, rx_d, rx_d, Plus rx_s,
           rep12 rx_d, Chr CHR '':'', rx_d, rx_d, Plus rx_s, Alt (Lit ''AM'') (Lit ''PM''), WordB]"

definition ID_BRACKET :: rx where
  "ID_BRACKET =
     Cats [Chr CHR ''['', Alts [Lit ''Portland Police'', Lit ''PPB'', Lit ''Police''],
           Star (rx_not ''#''), Chr CHR ''#'',
           Grp 1 (Plus (Cls (\<lambda>c. is_alpha c \<or> is_digit c \<or> c = CHR ''-''))),
           Chr CHR '']'']"

text \<open>The punctuation clean-up, one definition for each \<open>replace\<close> of the chain.\<close>

definition punct1 :: "string \<Rightarrow> string" where
  "punct1 s = replace_all_by (Cat rx_s (Plus rx_s)) False '' '' s"

definition punct2 :: "string \<Rightarrow> string" where
  "punct2 s = replace_all_by (Cats [Star rx_s, Chr CHR '','', Star rx_s]) False '', '' s"

definition punct3 :: "string \<Rightarrow> string" where
  "punct3 s =
     replace_by (Cats [Chr CHR '','', Star rx_s, Lit ''PORT'', Opt (Lit ''LAND''), WordB,
                       Opt (Chr CHR ''.'')]) True [] s"

definition punct4 :: "string \<Rightarrow> string" where
  "punct4 s = replace_all_by (Cats [Chr CHR '','', Star rx_s, Plus (Chr CHR '','')]) False '','' s"

definition punct5 :: "string \<Rightarrow> string" where
  "punct5 s = replace_all_by (Alt (Cat Bol (Chr CHR '','')) (Cat (Chr CHR '','') Eol)) False [] s"

record kml_desc =
  cleanAddress :: string
  incidentId :: "string option"
  updatedAt :: "string option"

definition tryParse :: "host \<Rightarrow> string \<Rightarrow> string option" where
  "tryParse h s =
     (case Date_ISO h (s @ '' GMT-0700'') of
        Some d \<Rightarrow> Some d
      | None \<Rightarrow> Date_ISO h (s @ '' GMT-0800''))"

definition parseKmlDescription :: "host \<Rightarrow> string \<Rightarrow> kml_desc" where
  "parseKmlDescription h descRaw =
     (let desc = stripHtml descRaw;
          addrPart0 = (case indexOf (toLowerCase desc) '' at '' of
                         Some atIdx \<Rightarrow> drop (atIdx + 4) desc
                       | None \<Rightarrow> desc);
          addrPart1 = trim (split_first addrPart0 [CHR 0x0A]);
          addrPart2 = trim (replace_by TS_INLINE True [] addrPart1);
          incidentId = (case rx_match ID_BRACKET True addrPart2 of
                          None \<Rightarrow> None
                        | Some (m, caps) \<Rightarrow> map_of caps 1);
          addrPart3 = trim (replace_by ID_BRACKET True [] addrPart2);
          addrPart4 = trim (punct5 (punct4 (punct3 (punct2 (punct1 addrPart3)))));
          updatedAt = (case rx_match TS_ANYWHERE True desc of
                         None \<Rightarrow> None
                       | Some (stamp, caps) \<Rightarrow> tryParse h stamp)
      in \<lparr>cleanAddress = addrPart4, incidentId = incidentId, updatedAt = updatedAt\<rparr>)"

subsection \<open>The three parsers\<close>

fun split_char :: "char \<Rightarrow> string \<Rightarrow> string list" where
  "split_char c [] = [[]]"
| "split_char c (x # xs) =
     (if x = c then [] # split_char c xs
      else (case split_char c xs of y # ys \<Rightarrow> (x # y) # ys | [] \<Rightarrow> [[x]]))"

definition opt_str :: "string option \<Rightarrow> jsval" where
  "opt_str s = (case s of Some x \<Rightarrow> Str x | None \<Rightarrow> Undefined)"

definition finite_or_undefined :: "jsval \<Rightarrow> jsval" where
  "finite_or_undefined v = (if Number_isFinite v then v else Undefined)"

text \<open>
  One placemark. The description, the coordinates, the title and the id go through
  \<open>String\<close>, which can raise; the name and the id are then left out of the row (the id
  is a random string when the placemark has none).
\<close>

definition kml_row :: "host \<Rightarrow> jsval \<Rightarrow> error + pdx_row" where
  "kml_row h pm =
     (let title = or_else (or_else (getq pm ''name'') (getq pm ''Name'')) (Str ''Incident'');
          coordText = or_else (or_else (getq (getq pm ''Point'') ''coordinates'')
                                       (getq pm ''coordinates'')) (Str []);
          idValue = or_else (getq pm ''id'') (getq pm ''name'')
      in case ToStringE h (or_else (getq pm ''description'') (Str [])) of
           Inl e \<Rightarrow> Inl e
         | Inr description \<Rightarrow>
             (case ToStringE h coordText of
                Inl e \<Rightarrow> Inl e
              | Inr coords \<Rightarrow>
                  let parts = map trim (split_char CHR '','' coords);
                      lat = (case parts of
                               lonStr # latStr # _ \<Rightarrow>
                                 if latStr \<noteq> [] then Num (StringToNumber latStr) else Undefined
                             | _ \<Rightarrow> Undefined);
                      lon = (case parts of
                               lonStr # _ \<Rightarrow>
                                 if lonStr \<noteq> [] then Num (StringToNumber lonStr) else Undefined
                             | [] \<Rightarrow> Undefined)
                  in case ToStringE h title of
                       Inl e \<Rightarrow> Inl e
                     | Inr name \<Rightarrow>
                         let kd = parseKmlDescription h description
                         in case (if truthy idValue then ToStringE h idValue else Inr []) of
                              Inl e \<Rightarrow> Inl e
                            | Inr incidentKey \<Rightarrow>
                                Inr \<lparr>r_lat = finite_or_undefined lat,
                                     r_lon = finite_or_undefined lon,
                                     r_address = (if cleanAddress kd \<noteq> [] then Str (cleanAddress kd)
                                                  else Undefined),
                                     r_updatedAt = opt_str (updatedAt kd),
                                     r_incidentId = opt_str (incidentId kd)\<rparr>))"

text \<open>
  \<open>parseKML\<close>: the XML parser raises on a text it rejects, and so does \<open>parseKML\<close>.
\<close>

definition parseKML :: "host \<Rightarrow> string \<Rightarrow> error + pdx_row list" where
  "parseKML h text =
     (case XML_parse h text of
        None \<Rightarrow> Inl ParserError
      | Some kml \<Rightarrow>
          let doc = or_else (or_else (getq (getq kml ''kml'') ''Document'') (getq kml ''Document''))
                            (getq kml ''kml'');
              pm = getq doc ''Placemark'';
              placemarks = (if isArray pm then elems pm else if truthy pm then [pm] else [])
          in map_err (kml_row h) placemarks)"

definition merge_feature :: "jsval \<Rightarrow> error + jsval" where
  "merge_feature f =
     (if nullish f then Inl TypeError
      else Inr (Obj (spread f @ spread (or_else (getq f ''properties'') (Obj [])))))"

definition json_rows :: "jsval \<Rightarrow> error + jsval list" where
  "json_rows json =
     (if isArray json then Inr (elems json)
      else if isArray (getq json ''incidents'') then Inr (elems (getq json ''incidents''))
      else if isArray (getq json ''features'') then map_err merge_feature (elems (getq json ''features''))
      else Inr [])"

definition json_row :: "host \<Rightarrow> jsval \<Rightarrow> error + pdx_row" where
  "json_row h r =
     (if nullish r then Inl TypeError
      else
        let addressRaw = coalesce (coalesce (coalesce (coalesce (coalesce (getq r ''Address'')
                           (getq r ''address'')) (getq r ''Location'')) (getq r ''location''))
                           (getq r ''addr_full'')) Null;
            geometry = getq r ''geometry'';
            coordinates = getq geometry ''coordinates'';
            lat = coalesce (coalesce (getq r ''lat'') (getq r ''latitude''))
                    (and_then geometry (and_then coordinates (at_index coordinates 1)));
            lon = coalesce (coalesce (getq r ''lon'') (getq r ''longitude''))
                    (and_then geometry (and_then coordinates (at_index coordinates 0)));
            updatedAt = coalesce (coalesce (coalesce (coalesce (coalesce (getq r ''updatedAt'')
                           (getq r ''LastUpdate'')) (getq r ''time'')) (getq r ''datetime''))
                           (getq r ''LastUpdated'')) (getq r ''CreationDate'')
        in case safeISO h updatedAt of
             Inl e \<Rightarrow> Inl e
           | Inr isoStr \<Rightarrow>
               Inr \<lparr>r_lat = Num (ToNumber lat),
                    r_lon = Num (ToNumber lon),
                    r_address = (if truthy addressRaw then Str (ToString h addressRaw) else Null),
                    r_updatedAt = isoStr,
                    r_incidentId = Undefined\<rparr>)"

definition parseJSONVariant :: "host \<Rightarrow> jsval \<Rightarrow> error + pdx_row list" where
  "parseJSONVariant h json =
     (case json_rows json of
        Inl e \<Rightarrow> Inl e
      | Inr rows \<Rightarrow> map_err (json_row h) rows)"

definition findIndex :: "('a \<Rightarrow> bool) \<Rightarrow> 'a list \<Rightarrow> nat option" where
  "findIndex P xs = (if list_ex P xs then Some (length (takeWhile (\<lambda>x. \<not> P x) xs)) else None)"

definition num_txt :: "nat \<Rightarrow> nat \<Rightarrow> rx" where
  "num_txt i j = Grp i (Cats [Opt (Chr CHR ''-''), Plus rx_d, Opt (Grp j (Cat (Chr CHR ''.'') (Plus rx_d)))])"

definition Q_LINK :: rx where
  "Q_LINK = Cats [Cls (\<lambda>c. c = CHR ''?'' \<or> c = CHR ''&''), Lit ''q='', num_txt 1 2, Chr CHR '','',
                  Star rx_s, num_txt 3 4]"

definition D3_LINK :: rx where
  "D3_LINK = Cats [Lit ''!3d'', num_txt 1 2, Lit ''!4d'', num_txt 3 4]"

definition cap_num :: "(nat \<times> string) list \<Rightarrow> nat \<Rightarrow> jsval" where
  "cap_num caps i = (case map_of caps i of Some s \<Rightarrow> Num (StringToNumber s) | None \<Rightarrow> Num NaN)"

definition link_coords :: "jsval \<times> jsval \<Rightarrow> string \<Rightarrow> jsval \<times> jsval" where
  "link_coords ll href =
     (case rx_match Q_LINK False href of
        Some (m, caps) \<Rightarrow> (cap_num caps 1, cap_num caps 3)
      | None \<Rightarrow> (case rx_match D3_LINK False href of
                   Some (m, caps) \<Rightarrow> (cap_num caps 1, cap_num caps 3)
                 | None \<Rightarrow> ll))"

definition html_row :: "host \<Rightarrow> nat option \<Rightarrow> nat option \<Rightarrow> html_cell list \<Rightarrow> error + pdx_row" where
  "html_row h idxAddress idxTime tds =
     (let get = (\<lambda>idx. case idx of
                    None \<Rightarrow> Undefined
                  | Some i \<Rightarrow> if i < length tds then Str (trim (cell_text (tds ! i))) else Undefined);
          links = filter (\<lambda>href. str_includes href ''google.'' \<or> str_includes href ''maps'')
                         (concat (map cell_links tds));
          ll = foldl link_coords (Undefined, Undefined) links
      in case safeISO h (get idxTime) of
           Inl e \<Rightarrow> Inl e
         | Inr isoStr \<Rightarrow>
             Inr \<lparr>r_lat = finite_or_undefined (fst ll),
                  r_lon = finite_or_undefined (snd ll),
                  r_address = get idxAddress,
                  r_updatedAt = isoStr,
                  r_incidentId = Undefined\<rparr>)"

definition parseHTMLTable :: "host \<Rightarrow> string \<Rightarrow> error + pdx_row list" where
  "parseHTMLTable h text =
     (case HTML_first_table h text of
        None \<Rightarrow> Inr []
      | Some trs \<Rightarrow>
          let headers = (case trs of
                           [] \<Rightarrow> []
                         | tr # _ \<Rightarrow> map (\<lambda>c. toLowerCase (trim (cell_text c))) tr);
              idxAddress = findIndex (rx_test (Alt (Lit ''address'') (Lit ''location'')) False) headers;
              idxTime = findIndex (rx_test (Alts [Lit ''received'', Lit ''time'', Lit ''datetime'',
                                                  Lit ''updated'']) False) headers
          in map_err (html_row h idxAddress idxTime)
               (filter (\<lambda>tds. tds \<noteq> []) (map (filter is_td) (tl trs))))"

subsection \<open>fetchCity\<close>

definition is_kml :: "string \<Rightarrow> bool" where
  "is_kml text = rx_test (Cat (Lit ''<kml'') (Cls (\<lambda>c. is_space c \<or> c = CHR ''>''))) True text"

definition is_html :: "string \<Rightarrow> bool" where
  "is_html text = rx_test (Cat (Lit ''<html'') (Cls (\<lambda>c. is_space c \<or> c = CHR ''>''))) True text"

text \<open>The content sniffing: KML first, then JSON under \<open>try\<close>, then the HTML table.\<close>

definition pdx_rows :: "host \<Rightarrow> string \<Rightarrow> error + pdx_row list" where
  "pdx_rows h text =
     (if is_kml text then parseKML h text
      else
        case (case JSON_parse h text of
                None \<Rightarrow> Inl SyntaxError
              | Some json \<Rightarrow> parseJSONVariant h json) of
          Inr rows \<Rightarrow> Inr rows
        | Inl e \<Rightarrow> if is_html text then parseHTMLTable h text else Inr [])"

definition tidy :: "host \<Rightarrow> pdx_row \<Rightarrow> pdx_row" where
  "tidy h r = (if truthy (r_address r) then r\<lparr>r_address := pdx_withCityState h (r_address r)\<rparr> else r)"

definition has_coords :: "pdx_row \<Rightarrow> bool" where
  "has_coords r = (Number_isFinite (r_lat r) \<and> Number_isFinite (r_lon r))"

definition pdx_needGeo :: "pdx_row list \<Rightarrow> pdx_row list" where
  "pdx_needGeo rows = filter (\<lambda>r. \<not> has_coords r \<and> truthy (r_address r)) rows"

text \<open>
  The map of unique addresses, in insertion order: a normalized query with the first
  address that gave it.
\<close>

definition unique_add :: "host \<Rightarrow> (string \<times> jsval) list \<Rightarrow> jsval \<Rightarrow> (string \<times> jsval) list" where
  "unique_add h m address =
     (let nrm = normalizeAddressV h address
      in if nrm \<noteq> [] \<and> map_of m nrm = None then m @ [(nrm, address)] else m)"

definition pdx_uniqueMap :: "host \<Rightarrow> pdx_row list \<Rightarrow> (string \<times> jsval) list" where
  "pdx_uniqueMap h needGeo = foldl (unique_add h) [] (map r_address needGeo)"

text \<open>
  The pool of five workers, run one key after the other in the order of the keys: each
  worker calls the resolver and stores a result, a failure stores nothing.
\<close>

fun pdx_geocode_all ::
    "host \<Rightarrow> geo_env \<Rightarrow> (string \<times> jsval) list \<Rightarrow> (string \<Rightarrow> geo_result option) \<Rightarrow> geo_state
     \<Rightarrow> (string \<Rightarrow> geo_result option) \<times> geo_state" where
  "pdx_geocode_all h genv [] geoResults st = (geoResults, st)"
| "pdx_geocode_all h genv ((nrm, original) # ks) geoResults st =
     (case geocode h genv (ToString h original) st of
        (Inr g, st') \<Rightarrow> pdx_geocode_all h genv ks (geoResults(nrm := Some g)) st'
      | (Inl e, st') \<Rightarrow> pdx_geocode_all h genv ks geoResults st')"

definition pdx_place :: "host \<Rightarrow> (string \<Rightarrow> geo_result option) \<Rightarrow> pdx_row \<Rightarrow> place option" where
  "pdx_place h geoResults r =
     (let (lat, lon, address) =
            (if \<not> has_coords r \<and> truthy (r_address r)
             then (case geoResults (normalizeAddressV h (r_address r)) of
                     Some g \<Rightarrow> (g_lat g, g_lon g, or_else (formatted g) (r_address r))
                   | None \<Rightarrow> (r_lat r, r_lon r, r_address r))
             else (r_lat r, r_lon r, r_address r))
      in if \<not> Number_isFinite lat \<or> \<not> Number_isFinite lon then None
         else Some \<lparr>p_lat = ToNumber lat, p_lon = ToNumber lon, p_address = address,
                    p_callTimeReceived = r_updatedAt r, p_updatedAt = Undefined\<rparr>)"

definition pdx_places :: "host \<Rightarrow> (string \<Rightarrow> geo_result option) \<Rightarrow> pdx_row list \<Rightarrow> place list" where
  "pdx_places h geoResults rows = List.map_filter (pdx_place h geoResults) rows"

text \<open>The pipeline from the parsed rows on.\<close>

definition pdx_pipeline ::
    "host \<Rightarrow> geo_env \<Rightarrow> pdx_row list \<Rightarrow> geo_state \<Rightarrow> place list \<times> geo_state" where
  "pdx_pipeline h genv rows0 st =
     (let rows = map (tidy h) rows0;
          uniqueMap = pdx_uniqueMap h (pdx_needGeo rows);
          (geoResults, st') = pdx_geocode_all h genv uniqueMap (\<lambda>k. None) st
      in (pdx_places h geoResults rows, st'))"

record pdx_env =
  PORTLAND_URL :: "string option"
  pdx_feed :: http_response

definition url_set :: "string option \<Rightarrow> bool" where
  "url_set u = (case u of None \<Rightarrow> False | Some s \<Rightarrow> s \<noteq> [])"

definition pdx_fetchCity ::
    "host \<Rightarrow> geo_env \<Rightarrow> pdx_env \<Rightarrow> geo_state \<Rightarrow> (error + place list) \<times> geo_state" where
  "pdx_fetchCity h genv env st =
     (if \<not> url_set (PORTLAND_URL env) then (Inl UrlNotSet, st)
      else if 400 \<le> statusCode (pdx_feed env)
      then (Inl (AdapterHTTP (statusCode (pdx_feed env)) (take 200 (body (pdx_feed env)))), st)
      else case pdx_rows h (body (pdx_feed env)) of
             Inl e \<Rightarrow> (Inl e, st)
           | Inr rows \<Rightarrow> (case pdx_pipeline h genv rows st of (places, st') \<Rightarrow> (Inr places, st')))"

section \<open>The Nashville adapter (adapters/nashville.js)\<close>











text \<open>
  A preliminary row: the properties of the feature, the display address computed from
  them, the two timestamps. The id, the name and the category are left out as for
  Portland. Nothing else of the feature is read: not its geometry.
\<close>

record nash_row =
  n_props :: jsval
  displayAddress :: string
  n_updatedAt :: jsval
  n_callTimeReceived :: jsval


subsection \<open>The distance check\<close>

definition atan2 :: "real \<Rightarrow> real \<Rightarrow> real" where
  "atan2 y x =
     (if 0 < x then arctan (y / x)
      else if x < 0 then (if 0 \<le> y then arctan (y / x) + pi else arctan (y / x) - pi)
      else if 0 < y then pi / 2
      else if y < 0 then - (pi / 2)
      else 0)"

text \<open>
  \<open>haversineMiles\<close> on two points, each a latitude and a longitude. The square root of
  a negative number is NaN, and so is then the distance.
\<close>

definition haversineMiles :: "jsval \<times> jsval \<Rightarrow> jsval \<times> jsval \<Rightarrow> jsnum" where
  "haversineMiles a b =
     (case (fst a, snd a, fst b, snd b) of
        (Num (Fin alat), Num (Fin alon), Num (Fin blat), Num (Fin blon)) \<Rightarrow>
          let R = 3958.7613;
              dLat = (blat - alat) * pi / 180;
              dLon = (blon - alon) * pi / 180;
              lat1 = alat * pi / 180;
              lat2 = blat * pi / 180;
              sinDLat = sin (dLat / 2);
              sinDLon = sin (dLon / 2);
              hh = sinDLat * sinDLat + cos lat1 * cos lat2 * sinDLon * sinDLon;
              c = 2 * atan2 (sqrt hh) (sqrt (1 - hh))
          in if hh < 0 \<or> 1 < hh then NaN else Fin (R * c)
      | _ \<Rightarrow> PInf)"

definition NASHVILLE_CENTER :: "jsval \<times> jsval" where
  "NASHVILLE_CENTER = (Num (Fin 36.1627), Num (Fin (- 86.7816)))"

definition MAX_MILES :: jsnum where
  "MAX_MILES = Fin 40"

definition TRAILING_CITY_TN :: rx where
  "TRAILING_CITY_TN = Cats [Lit '', '', Plus (rx_not '',''), Lit '', TN'', Eol]"

definition forceNashville :: "string \<Rightarrow> string" where
  "forceNashville s =
     (if rx_test TRAILING_CITY_TN True s then replace_by TRAILING_CITY_TN True '', Nashville, TN'' s
      else if rx_test (Cat (Lit ''TN'') Eol) True s then s
      else s @ '', Nashville, TN'')"

definition too_far :: "geo_result \<Rightarrow> bool" where
  "too_far g = (finite_result g \<and> num_less MAX_MILES (haversineMiles (g_lat g, g_lon g) NASHVILLE_CENTER))"

definition within_radius :: "geo_result \<Rightarrow> bool" where
  "within_radius g = (finite_result g \<and> num_le (haversineMiles (g_lat g, g_lon g) NASHVILLE_CENTER) MAX_MILES)"

subsection \<open>fetchCity\<close>


text \<open>One worker of the pool: the lookup, the retry when the result is too far, the store.\<close>

definition nash_worker ::
    "host \<Rightarrow> geo_env \<Rightarrow> string \<times> jsval \<Rightarrow> (string \<Rightarrow> geo_result option) \<times> geo_state
     \<Rightarrow> (string \<Rightarrow> geo_result option) \<times> geo_state" where
  "nash_worker h genv k rs =
     (let original = ToString h (snd k) in
      case geocode h genv original (snd rs) of
        (Inl e, st1) \<Rightarrow> (fst rs, st1)
      | (Inr g, st1) \<Rightarrow>
          if too_far g
          then (case geocode h genv (forceNashville original) st1 of
                  (Inl e, st2) \<Rightarrow> (fst rs, st2)
                | (Inr g2, st2) \<Rightarrow>
                    ((fst rs)(fst k := Some (if within_radius g2 then g2 else g)), st2))
          else ((fst rs)(fst k := Some g), st1))"


definition nash_place :: "(string \<Rightarrow> geo_result option) \<Rightarrow> nash_row \<Rightarrow> place option" where
  "nash_place geocodeResults r =
     (if displayAddress r = [] \<or> normalizeAddress (displayAddress r) = [] then None
      else case geocodeResults (normalizeAddress (displayAddress r)) of
             None \<Rightarrow> None
           | Some g \<Rightarrow>
               if \<not> Number_isFinite (g_lat g) \<or> \<not> Number_isFinite (g_lon g) then None
               else Some \<lparr>p_lat = ToNumber (g_lat g), p_lon = ToNumber (g_lon g),
                          p_address = Str (displayAddress r),
                          p_callTimeReceived = n_callTimeReceived r,
                          p_updatedAt = n_updatedAt r\<rparr>)"





section \<open>The San Francisco adapter with the bounding box\<close>

text \<open>The box and its switch, read from the environment when the module loads.\<close>

record sf_conf =
  minLat :: jsnum
  maxLat :: jsnum
  minLon :: jsnum
  maxLon :: jsnum
  ENFORCE_BBOX :: bool

definition SF_BBOX_default :: sf_conf where
  "SF_BBOX_default =
     \<lparr>minLat = Fin 37.55, maxLat = Fin 37.95, minLon = Fin (- 122.60), maxLon = Fin (- 122.20),
      ENFORCE_BBOX = True\<rparr>"

definition in_box :: "sf_conf \<Rightarrow> jsnum \<Rightarrow> jsnum \<Rightarrow> bool" where
  "in_box conf lat lon =
     (num_le (minLat conf) lat \<and> num_le lat (maxLat conf) \<and>
      num_le (minLon conf) lon \<and> num_le lon (maxLon conf))"

definition inSF :: "sf_conf \<Rightarrow> jsval \<Rightarrow> jsval \<Rightarrow> bool" where
  "inSF conf lat lon =
     (if \<not> Number_isFinite lat \<or> \<not> Number_isFinite lon then False
      else if \<not> ENFORCE_BBOX conf then True
      else in_box conf (ToNumber lat) (ToNumber lon))"

definition pick :: "jsval \<Rightarrow> string list \<Rightarrow> jsval" where
  "pick v keys =
     (case filter (\<lambda>k. truthy v \<and> \<not> nullish (getq v k)) keys of
        [] \<Rightarrow> Undefined
      | k # _ \<Rightarrow> getq v k)"

definition s_trim :: "host \<Rightarrow> jsval \<Rightarrow> string" where
  "s_trim h v = trim (ToString h (coalesce v (Str [])))"

text \<open>\<open>a || b\<close> on strings.\<close>

definition str_or :: "string \<Rightarrow> string \<Rightarrow> string" where
  "str_or a b = (if a \<noteq> [] then a else b)"

text \<open>
  \<open>extractCoordsStrict\<close>; reading \<open>row.latitude\<close> raises on a row that is \<open>null\<close>.
\<close>

definition extractCoordsStrict :: "sf_conf \<Rightarrow> jsval \<Rightarrow> error + jsval \<times> jsval" where
  "extractCoordsStrict conf row =
     (if nullish row then Inl TypeError
      else
        let lat = Num (ToNumber (getq row ''latitude''));
            lon = Num (ToNumber (getq row ''longitude''));
            loc = or_else (or_else (or_else (or_else (getq row ''location'') (getq row ''point''))
                    (getq row ''location_1'')) (getq row ''geom'')) (getq row ''geometry'');
            lat2 = Num (ToNumber (getq loc ''latitude''));
            lon2 = Num (ToNumber (getq loc ''longitude''));
            coordinates = getq loc ''coordinates'';
            lon3 = Num (ToNumber (at_index coordinates 0));
            lat3 = Num (ToNumber (at_index coordinates 1))
        in if inSF conf lat lon then Inr (lat, lon)
           else if truthy loc \<and> is_object loc
           then (if inSF conf lat2 lon2 then Inr (lat2, lon2)
                 else if isArray coordinates \<and> 2 \<le> length (elems coordinates) \<and> inSF conf lat3 lon3
                 then Inr (lat3, lon3)
                 else Inr (Undefined, Undefined))
           else Inr (Undefined, Undefined))"

definition buildAddressFromHumanAddress :: "host \<Rightarrow> jsval \<Rightarrow> jsval" where
  "buildAddressFromHumanAddress h ha =
     (case (case ha of Str t \<Rightarrow> JSON_parse h t | _ \<Rightarrow> Some ha) of
        None \<Rightarrow> Undefined
      | Some obj \<Rightarrow>
          Str (intercalate '', ''
                 (map (ToString h)
                    (filter truthy [getq obj ''address'', getq obj ''city'', getq obj ''state'',
                                    getq obj ''zip'']))))"

definition bestStreetFromDataset :: "host \<Rightarrow> jsval \<Rightarrow> string" where
  "bestStreetFromDataset h r =
     str_or (s_trim h (pick r [''address'']))
       (str_or (s_trim h (pick r [''intersection'']))
          (str_or (if truthy (getq r ''location'') \<and> is_object (getq r ''location'')
                   then s_trim h (buildAddressFromHumanAddress h (getq (getq r ''location'') ''human_address''))
                   else [])
             (str_or (s_trim h (pick r [''location_text''])) [])))"

definition bestAddressForGeocode :: "host \<Rightarrow> jsval \<Rightarrow> string" where
  "bestAddressForGeocode h r =
     str_or (bestStreetFromDataset h r)
       (str_or (s_trim h (pick r [''neighborhood_district''])) ''San Francisco City Hall'')"

definition looksStreetSpecific :: "host \<Rightarrow> jsval \<Rightarrow> bool" where
  "looksStreetSpecific h str =
     (let t = toLowerCase (ToString h (if str = Undefined then Str [] else str))
      in rx_test (Cats [Plus rx_d, Plus rx_s, Cls is_lower]) True t \<or>
         str_includes t ''&'' \<or>
         str_includes t '' / '' \<or>
         rx_test (Cat (Lit '' block'') WordB) True t \<or>
         rx_test (Cats [WordB,
                        Alts (map Lit [''st'', ''street'', ''ave'', ''avenue'', ''blvd'', ''dr'', ''rd'',
                                       ''ln'', ''terr'', ''pl'', ''ct'']),
                        WordB]) True t)"

definition sf_withCityState :: "string \<Rightarrow> string" where
  "sf_withCityState addr =
     (if addr = [] then ''San Francisco, CA''
      else
        let clean = trim (replace_all_by (Cats [Chr CHR '','', Plus rx_s, Chr CHR '','']) False '',''
                            (replace_all_by (Cat (Plus rx_s) (Chr CHR '','')) False '','' addr));
            lower = toLowerCase clean
        in if str_includes lower ''san francisco'' \<or> str_includes lower '' ca'' \<or>
              str_includes lower ''california''
           then clean
           else clean @ '', San Francisco, CA'')"

text \<open>On the display value, which is a string or the geocoder's label: \<open>addr.replace\<close>
  raises on a value that is neither falsy nor a string.\<close>

definition sf_withCityStateV :: "jsval \<Rightarrow> error + string" where
  "sf_withCityStateV addr =
     (if \<not> truthy addr then Inr ''San Francisco, CA''
      else case addr of Str a \<Rightarrow> Inr (sf_withCityState a) | _ \<Rightarrow> Inl TypeError)"

text \<open>
  \<open>toISO\<close> of this adapter: \<open>new Date(ts)\<close> on any truthy value, and \<open>undefined\<close> for
  an invalid date, so that it never raises.
\<close>

definition sf_toISO :: "host \<Rightarrow> jsval \<Rightarrow> jsval" where
  "sf_toISO h ts =
     (if \<not> truthy ts then Undefined
      else case ts of
          Num n \<Rightarrow> (case n of
                      Fin r \<Rightarrow> if \<bar>r\<bar> \<le> 8640000000000000 then Str (Date_ISO_ms h r) else Undefined
                    | _ \<Rightarrow> Undefined)
        | Bool b \<Rightarrow> Str (Date_ISO_ms h 1)
        | v \<Rightarrow> (case Date_ISO h (ToString h v) of Some d \<Rightarrow> Str d | None \<Rightarrow> Undefined))"

record sf_row =
  s_lat :: jsval
  s_lon :: jsval
  streetFromDataset :: string
  geocodeQuery :: string
  s_updatedAt :: jsval

definition sf_prelim :: "host \<Rightarrow> sf_conf \<Rightarrow> jsval \<Rightarrow> error + sf_row" where
  "sf_prelim h conf r =
     (case extractCoordsStrict conf r of
        Inl e \<Rightarrow> Inl e
      | Inr (lat, lon) \<Rightarrow>
          Inr \<lparr>s_lat = lat, s_lon = lon, streetFromDataset = bestStreetFromDataset h r,
               geocodeQuery = bestAddressForGeocode h r,
               s_updatedAt = sf_toISO h (pick r [''received_datetime'', ''entry_datetime'',
                                               ''updated_datetime'', ''dispatch_datetime''])\<rparr>)"

definition sf_has_coords :: "sf_row \<Rightarrow> bool" where
  "sf_has_coords p = (Number_isFinite (s_lat p) \<and> Number_isFinite (s_lon p))"

definition sf_query_key :: "sf_row \<Rightarrow> string" where
  "sf_query_key p = normalizeAddress (sf_withCityState (geocodeQuery p))"

definition sf_uniqueMap :: "host \<Rightarrow> sf_row list \<Rightarrow> (string \<times> jsval) list" where
  "sf_uniqueMap h prelim =
     foldl (unique_add h) []
       (map (\<lambda>p. Str (sf_withCityState (geocodeQuery p)))
            (filter (\<lambda>p. \<not> sf_has_coords p \<and> geocodeQuery p \<noteq> []) prelim))"

text \<open>A worker stores a result only when it lands inside the box (or the box is off).\<close>

definition sf_worker ::
    "host \<Rightarrow> geo_env \<Rightarrow> sf_conf \<Rightarrow> string \<times> jsval \<Rightarrow> (string \<Rightarrow> geo_result option) \<times> geo_state
     \<Rightarrow> (string \<Rightarrow> geo_result option) \<times> geo_state" where
  "sf_worker h genv conf k rs =
     (case geocode h genv (ToString h (snd k)) (snd rs) of
        (Inl e, st1) \<Rightarrow> (fst rs, st1)
      | (Inr g, st1) \<Rightarrow>
          if inSF conf (Num (ToNumber (g_lat g))) (Num (ToNumber (g_lon g)))
          then ((fst rs)(fst k := Some g), st1)
          else (fst rs, st1))"

definition sf_geocode_all ::
    "host \<Rightarrow> geo_env \<Rightarrow> sf_conf \<Rightarrow> (string \<times> jsval) list \<Rightarrow> geo_state
     \<Rightarrow> (string \<Rightarrow> geo_result option) \<times> geo_state" where
  "sf_geocode_all h genv conf uniq st =
     foldl (\<lambda>rs k. sf_worker h genv conf k rs) (\<lambda>k. None, st) uniq"

definition sf_coords :: "(string \<Rightarrow> geo_result option) \<Rightarrow> sf_row \<Rightarrow> jsval \<times> jsval" where
  "sf_coords geoResults p =
     (if \<not> sf_has_coords p \<and> geocodeQuery p \<noteq> []
      then (case geoResults (sf_query_key p) of
              Some g \<Rightarrow> (Num (ToNumber (g_lat g)), Num (ToNumber (g_lon g)))
            | None \<Rightarrow> (s_lat p, s_lon p))
      else (s_lat p, s_lon p))"

definition sf_display :: "host \<Rightarrow> (string \<Rightarrow> geo_result option) \<Rightarrow> sf_row \<Rightarrow> jsval" where
  "sf_display h geoResults p =
     (if trim (streetFromDataset p) \<noteq> [] then Str (trim (streetFromDataset p))
      else
        let fmt = (case geoResults (sf_query_key p) of Some g \<Rightarrow> formatted g | None \<Rightarrow> Undefined)
        in if looksStreetSpecific h fmt then fmt else Str [])"

text \<open>One turn of the loop over the rows: nothing pushed, a place pushed, or an error.\<close>

definition sf_place ::
    "host \<Rightarrow> sf_conf \<Rightarrow> (string \<Rightarrow> geo_result option) \<Rightarrow> sf_row \<Rightarrow> error + place option" where
  "sf_place h conf geoResults p =
     (let ll = sf_coords geoResults p in
      if \<not> inSF conf (fst ll) (snd ll) then Inr None
      else case sf_withCityStateV (sf_display h geoResults p) of
             Inl e \<Rightarrow> Inl e
           | Inr display \<Rightarrow>
               Inr (Some \<lparr>p_lat = ToNumber (fst ll), p_lon = ToNumber (snd ll),
                          p_address = Str display, p_callTimeReceived = Undefined,
                          p_updatedAt = s_updatedAt p\<rparr>))"

definition sf_places ::
    "host \<Rightarrow> sf_conf \<Rightarrow> (string \<Rightarrow> geo_result option) \<Rightarrow> sf_row list \<Rightarrow> error + place list" where
  "sf_places h conf geoResults prelim =
     (case map_err (sf_place h conf geoResults) prelim of
        Inl e \<Rightarrow> Inl e
      | Inr ps \<Rightarrow> Inr (List.map_filter id ps))"

definition sf_fetchCity ::
    "host \<Rightarrow> geo_env \<Rightarrow> sf_conf \<Rightarrow> http_response \<Rightarrow> geo_state \<Rightarrow> (error + place list) \<times> geo_state" where
  "sf_fetchCity h genv conf res st =
     (if 400 \<le> statusCode res then (Inl (AdapterHTTP (statusCode res) (take 200 (body res))), st)
      else case JSON_parse h (body res) of
             None \<Rightarrow> (Inr [], st)
           | Some rows \<Rightarrow>
               if \<not> isArray rows \<or> elems rows = [] then (Inr [], st)
               else (case map_err (sf_prelim h conf) (elems rows) of
                       Inl e \<Rightarrow> (Inl e, st)
                     | Inr prelim \<Rightarrow>
                         (case sf_geocode_all h genv conf (sf_uniqueMap h prelim) st of
                            (geoResults, st') \<Rightarrow> (sf_places h conf geoResults prelim, st'))))"

section \<open>The San Francisco adapter without geocoding (adapters/sf.js)\<close>

definition WKT_POINT :: rx where
  "WKT_POINT =
     Cats [Lit ''POINT'', Star rx_s, Chr CHR ''('', Star rx_s,
           Grp 1 (Cats [Opt (Chr CHR ''-''), Plus rx_d, Opt (Cat (Chr CHR ''.'') (Plus rx_d))]),
           Plus rx_s,
           Grp 2 (Cats [Opt (Chr CHR ''-''), Plus rx_d, Opt (Cat (Chr CHR ''.'') (Plus rx_d))]),
           Star rx_s, Chr CHR '')'']"

text \<open>One candidate container of \<open>extractCoords\<close>: the coordinates it gives, if any.\<close>

definition candidate_coords :: "jsval \<Rightarrow> (jsval \<times> jsval) option" where
  "candidate_coords loc =
     (let coordinates = getq loc ''coordinates'';
          lon2 = Num (ToNumber (at_index coordinates 0));
          lat2 = Num (ToNumber (at_index coordinates 1));
          lat3 = Num (ToNumber (getq loc ''latitude''));
          lon3 = Num (ToNumber (getq loc ''longitude''))
      in if \<not> truthy loc then None
         else if is_object loc \<and> isArray coordinates \<and> 2 \<le> length (elems coordinates) \<and>
                 Number_isFinite lat2 \<and> Number_isFinite lon2
         then Some (lat2, lon2)
         else if Number_isFinite lat3 \<and> Number_isFinite lon3 then Some (lat3, lon3)
         else (case loc of
                 Str t \<Rightarrow>
                   (case rx_match WKT_POINT True t of
                      None \<Rightarrow> None
                    | Some (m, caps) \<Rightarrow>
                        if Number_isFinite (cap_num caps 2) \<and> Number_isFinite (cap_num caps 1)
                        then Some (cap_num caps 2, cap_num caps 1) else None)
               | _ \<Rightarrow> None))"

definition extractCoords :: "jsval \<Rightarrow> error + jsval \<times> jsval" where
  "extractCoords row =
     (if nullish row then Inl TypeError
      else
        let lat = Num (ToNumber (getq row ''latitude''));
            lon = Num (ToNumber (getq row ''longitude''))
        in if Number_isFinite lat \<and> Number_isFinite lon then Inr (lat, lon)
           else (case List.map_filter candidate_coords
                        [getq row ''intersection_point'', getq row ''location'', getq row ''point'',
                         getq row ''location_1'', getq row ''geom'', getq row ''geometry''] of
                   ll # _ \<Rightarrow> Inr ll
                 | [] \<Rightarrow> Inr (Undefined, Undefined)))"

text \<open>
  The coordinates of the places \<open>fetchCity\<close> of this adapter emits, in order: a row
  is skipped when \<open>extractCoords\<close> gives no finite pair.
\<close>

definition sfp_place_coords :: "jsval \<Rightarrow> error + (jsnum \<times> jsnum) option" where
  "sfp_place_coords r =
     (case extractCoords r of
        Inl e \<Rightarrow> Inl e
      | Inr (lat, lon) \<Rightarrow>
          if \<not> Number_isFinite lat \<or> \<not> Number_isFinite lon then Inr None
          else Inr (Some (ToNumber lat, ToNumber lon)))"

definition sfp_fetchCity_coords :: "host \<Rightarrow> http_response \<Rightarrow> error + (jsnum \<times> jsnum) list" where
  "sfp_fetchCity_coords h res =
     (if 400 \<le> statusCode res then Inl (AdapterHTTP (statusCode res) (take 200 (body res)))
      else case JSON_parse h (body res) of
             None \<Rightarrow> Inr []
           | Some rows \<Rightarrow>
               if \<not> isArray rows \<or> elems rows = [] then Inr []
               else (case map_err sfp_place_coords (elems rows) of
                       Inl e \<Rightarrow> Inl e
                     | Inr cs \<Rightarrow> Inr (List.map_filter id cs)))"

section \<open>Example inputs\<close>

text \<open>
  Concrete feeds and geocoder answers, with a host that reads each body as the JSON
  value it denotes. The bodies carry no timestamps, and no number is printed but a
  natural one.
\<close>

definition FAR_BODY :: string where
  "FAR_BODY = ''{\"results\":[{\"geometry\":{\"lat\":-53.8373,\"lng\":-86.7816},\"formatted\":\"South Pacific Ocean\"}]}''"

definition far_result :: geo_result where
  "far_result = \<lparr>g_lat = Num (Fin (- 53.8373)), g_lon = Num (Fin (- 86.7816)),
                  formatted = Str ''South Pacific Ocean''\<rparr>"

definition CENTER_BODY :: string where
  "CENTER_BODY = ''{\"results\":[{\"geometry\":{\"lat\":36.1627,\"lng\":-86.7816},\"formatted\":\"Nashville, Tennessee, USA\"}]}''"

definition center_result :: geo_result where
  "center_result = \<lparr>g_lat = Num (Fin 36.1627), g_lon = Num (Fin (- 86.7816)),
                     formatted = Str ''Nashville, Tennessee, USA''\<rparr>"

definition PDX_BODY :: string where
  "PDX_BODY = ''{\"results\":[{\"geometry\":{\"lat\":45.5,\"lng\":-122.6},\"formatted\":\"Southwest 5th Avenue, Portland, OR 97204, USA\"}]}''"

definition pdx_result :: geo_result where
  "pdx_result = \<lparr>g_lat = Num (Fin 45.5), g_lon = Num (Fin (- 122.6)),
                  formatted = Str ''Southwest 5th Avenue, Portland, OR 97204, USA''\<rparr>"

definition hit_json :: "geo_result \<Rightarrow> jsval" where
  "hit_json g =
     Obj [(''results'',
           Arr [Obj [(''geometry'', Obj [(''lat'', g_lat g), (''lng'', g_lon g)]),
                     (''formatted'', formatted g)]])]"

definition NASH_FEED :: string where
  "NASH_FEED = ''{\"features\":[{\"properties\":{\"Address\":\"5th Ave\"}},{\"properties\":{\"Address\":\"5th   ave\"}}]}''"

definition nash_feed_json :: jsval where
  "nash_feed_json =
     Obj [(''features'',
           Arr [Obj [(''properties'', Obj [(''Address'', Str ''5th Ave'')])],
                Obj [(''properties'', Obj [(''Address'', Str ''5th   ave'')])]])]"

definition NASH_FEED_NATIVE :: string where
  "NASH_FEED_NATIVE = ''{\"features\":[{\"geometry\":{\"type\":\"Point\",\"coordinates\":[-86.65,36.05]},\"properties\":{\"Address\":\"5th Ave\"}}]}''"

definition nash_native_json :: jsval where
  "nash_native_json =
     Obj [(''features'',
           Arr [Obj [(''geometry'', Obj [(''type'', Str ''Point''),
                                         (''coordinates'', Arr [Num (Fin (- 86.65)), Num (Fin 36.05)])]),
                     (''properties'', Obj [(''Address'', Str ''5th Ave'')])]])]"

definition PDX_FEED :: string where
  "PDX_FEED = ''[{\"address\":\"5th Ave\"},{\"address\":\"5th   ave\"}]''"

definition pdx_feed_json :: jsval where
  "pdx_feed_json = Arr [Obj [(''address'', Str ''5th Ave'')], Obj [(''address'', Str ''5th   ave'')]]"

definition SF_FEED :: string where
  "SF_FEED = ''[{\"latitude\":\"37.77\",\"longitude\":\"-122.42\",\"address\":\"1 Market St\"},{\"address\":\"5th Ave\"}]''"

definition sf_feed_json :: jsval where
  "sf_feed_json =
     Arr [Obj [(''latitude'', Str ''37.77''), (''longitude'', Str ''-122.42''),
               (''address'', Str ''1 Market St'')],
          Obj [(''address'', Str ''5th Ave'')]]"

definition EMPTY_BODY :: string where
  "EMPTY_BODY = ''{\"results\":[]}''"

definition TWO_BODY :: string where
  "TWO_BODY = ''{\"results\":[{\"formatted\":\"Nowhere\"},{\"geometry\":{\"lat\":36,\"lng\":-86},\"formatted\":\"Nashville, Tennessee, USA\"}]}''"

definition two_json :: jsval where
  "two_json =
     Obj [(''results'',
           Arr [Obj [(''formatted'', Str ''Nowhere'')],
                Obj [(''geometry'', Obj [(''lat'', Num (Fin 36)), (''lng'', Num (Fin (- 86)))]),
                     (''formatted'', Str ''Nashville, Tennessee, USA'')]])]"

definition LAT91_FEED :: string where
  "LAT91_FEED = ''[{\"lat\":\"91\",\"lon\":\"-122.6\",\"address\":\"1 Main St\"}]''"

definition lat91_json :: jsval where
  "lat91_json =
     Arr [Obj [(''lat'', Str ''91''), (''lon'', Str ''-122.6''), (''address'', Str ''1 Main St'')]]"

definition SF91_FEED :: string where
  "SF91_FEED = ''[{\"latitude\":\"91\",\"longitude\":\"-122.4\"}]''"

definition sf91_json :: jsval where
  "sf91_json = Arr [Obj [(''latitude'', Str ''91''), (''longitude'', Str ''-122.4'')]]"

definition place91 :: place where
  "place91 = \<lparr>p_lat = Fin 91, p_lon = Fin (- 122.6), p_address = Str ''1 Main St, Portland, OR'',
               p_callTimeReceived = Undefined, p_updatedAt = Undefined\<rparr>"

definition demo_print :: "jsnum \<Rightarrow> string" where
  "demo_print n =
     (case n of Fin r \<Rightarrow> nat_str (nat \<lfloor>r\<rfloor>) | PInf \<Rightarrow> ''Infinity'' | NInf \<Rightarrow> ''-Infinity''
      | NaN \<Rightarrow> ''NaN'')"

definition demo_parse :: "string \<Rightarrow> jsval option" where
  "demo_parse s =
     (if s = FAR_BODY then Some (hit_json far_result)
      else if s = CENTER_BODY then Some (hit_json center_result)
      else if s = PDX_BODY then Some (hit_json pdx_result)
      else if s = NASH_FEED then Some nash_feed_json
      else if s = NASH_FEED_NATIVE then Some nash_native_json
      else if s = PDX_FEED then Some pdx_feed_json
      else if s = SF_FEED then Some sf_feed_json
      else if s = ''[null]'' then Some (Arr [Null])
      else if s = LAT91_FEED then Some lat91_json
      else if s = SF91_FEED then Some sf91_json
      else if s = EMPTY_BODY then Some (Obj [(''results'', Arr [])])
      else if s = TWO_BODY then Some two_json
      else None)"

text \<open>
  Two KML feeds: one that breaks off inside a comment, which the XML parser rejects, and
  a well-formed one whose description holds an element named \<open>toString\<close>.
\<close>

definition KML_UNCLOSED :: string where
  "KML_UNCLOSED = ''<kml><!-- unclosed''"

definition KML_TOSTRING :: string where
  "KML_TOSTRING = ''<kml><Document><Placemark><description><toString>x</toString></description></Placemark></Document></kml>''"

definition kml_tostring_value :: jsval where
  "kml_tostring_value =
     Obj [(''kml'', Obj [(''Document'', Obj [(''Placemark'',
            Obj [(''description'', Obj [(''toString'', Str ''x'')])])])])]"

definition demo_xml :: "string \<Rightarrow> jsval option" where
  "demo_xml s = (if s = KML_TOSTRING then Some kml_tostring_value else None)"

definition demo_host :: host where
  "demo_host =
     \<lparr>Number_toString = demo_print, JSON_parse = demo_parse, Date_ISO = (\<lambda>s. None),
      Date_ISO_ms = (\<lambda>r. []), XML_parse = demo_xml, HTML_first_table = (\<lambda>s. None)\<rparr>"

definition kml_unclosed_env :: pdx_env where
  "kml_unclosed_env = \<lparr>PORTLAND_URL = Some ''https://example.test/pdx'',
                        pdx_feed = \<lparr>statusCode = 200, body = KML_UNCLOSED\<rparr>\<rparr>"

definition kml_tostring_env :: pdx_env where
  "kml_tostring_env = \<lparr>PORTLAND_URL = Some ''https://example.test/pdx'',
                        pdx_feed = \<lparr>statusCode = 200, body = KML_TOSTRING\<rparr>\<rparr>"

text \<open>A geocoding service that gives one answer to every query, and one that places
  a Nashville address in Nashville and every other one far away.\<close>

definition answering :: "string \<Rightarrow> geo_env" where
  "answering b = \<lparr>KEY = Some ''key'', TTL = 2592000, upstream = (\<lambda>a. \<lparr>statusCode = 200, body = b\<rparr>)\<rparr>"

definition retry_env :: geo_env where
  "retry_env =
     \<lparr>KEY = Some ''key'', TTL = 2592000,
      upstream = (\<lambda>a. \<lparr>statusCode = 200,
                         body = (if a = ''1 Main St, Nashville, TN'' then CENTER_BODY else FAR_BODY)\<rparr>)\<rparr>"

text \<open>A service that places every address far away and fails on the forced one.\<close>

definition failing_retry_env :: geo_env where
  "failing_retry_env =
     \<lparr>KEY = Some ''key'', TTL = 2592000,
      upstream = (\<lambda>a. if a = ''1 Main St, Nashville, TN''
                         then \<lparr>statusCode = 500, body = ''upstream error''\<rparr>
                         else \<lparr>statusCode = 200, body = FAR_BODY\<rparr>)\<rparr>"


definition st0 :: geo_state where
  "st0 = \<lparr>cache = (\<lambda>q. None), now = 1760000000000, calls = []\<rparr>"

text \<open>The range of the specification's invariant on an emitted place.\<close>

definition valid_place :: "place \<Rightarrow> bool" where
  "valid_place p =
     (isFinite (p_lat p) \<and> isFinite (p_lon p) \<and>
      num_le (Fin (- 90)) (p_lat p) \<and> num_le (p_lat p) (Fin 90) \<and>
      num_le (Fin (- 180)) (p_lon p) \<and> num_le (p_lon p) (Fin 180))"


definition stored_in_box :: "sf_conf \<Rightarrow> (string \<Rightarrow> geo_result option) \<Rightarrow> bool" where
  "stored_in_box conf res =
     (\<forall>k g. res k = Some g \<longrightarrow>
        isFinite (ToNumber (g_lat g)) \<and> isFinite (ToNumber (g_lon g)) \<and>
        in_box conf (ToNumber (g_lat g)) (ToNumber (g_lon g)))"

subsection \<open>Example rows\<close>


definition pdx_demo_rows :: "pdx_row list" where
  "pdx_demo_rows =
     [\<lparr>r_lat = Num NaN, r_lon = Num NaN, r_address = Str ''5th Ave'', r_updatedAt = Undefined,
       r_incidentId = Undefined\<rparr>,
      \<lparr>r_lat = Num NaN, r_lon = Num NaN, r_address = Str ''5th   ave'', r_updatedAt = Undefined,
       r_incidentId = Undefined\<rparr>]"

definition forced_per_spec :: "string \<Rightarrow> string" where
  "forced_per_spec s =
     (if rx_test TRAILING_CITY_TN True s then replace_by TRAILING_CITY_TN True '', Nashville, TN'' s
      else s @ '', Nashville, TN'')"

definition ends_in_TN :: "string \<Rightarrow> bool" where
  "ends_in_TN s = rx_test (Cat (Lit ''TN'') Eol) True s"

definition native_row :: pdx_row where
  "native_row = \<lparr>r_lat = Num (Fin 45.52), r_lon = Num (Fin (- 122.68)),
                  r_address = Str ''1 Main St, Portland, OR'', r_updatedAt = Undefined,
                  r_incidentId = Undefined\<rparr>"

definition geocoded_row :: pdx_row where
  "geocoded_row = \<lparr>r_lat = Num NaN, r_lon = Num NaN, r_address = Str ''5th Ave, Portland, OR'',
                    r_updatedAt = Undefined, r_incidentId = Undefined\<rparr>"

definition nash_demo_row :: nash_row where
  "nash_demo_row = \<lparr>n_props = Obj [(''Address'', Str ''5th Ave'')],
                     displayAddress = ''5th Ave, Nashville, TN'', n_updatedAt = Undefined,
                     n_callTimeReceived = Undefined\<rparr>"

definition sf_hall_result :: geo_result where
  "sf_hall_result = \<lparr>g_lat = Num (Fin 37.7793), g_lon = Num (Fin (- 122.4193)),
                      formatted = Str ''1 Dr Carlton B Goodlett Pl, San Francisco, CA 94102''\<rparr>"

definition sf_street_row :: sf_row where
  "sf_street_row = \<lparr>s_lat = Num (Fin 37.77), s_lon = Num (Fin (- 122.42)),
                     streetFromDataset = ''1 Market St'', geocodeQuery = ''1 Market St'', s_updatedAt = Undefined\<rparr>"

definition sf_bare_row :: sf_row where
  "sf_bare_row = \<lparr>s_lat = Undefined, s_lon = Undefined, streetFromDataset = [],
                   geocodeQuery = ''San Francisco City Hall'', s_updatedAt = Undefined\<rparr>"

definition sf_cabrillo_row :: sf_row where
  "sf_cabrillo_row = \<lparr>s_lat = Num (Fin 37.775), s_lon = Num (Fin (- 122.49)),
                       streetFromDataset = ''100 Cabrillo St'', geocodeQuery = ''100 Cabrillo St'',
                       s_updatedAt = Undefined\<rparr>"


definition sf_geo_row :: sf_row where
  "sf_geo_row = \<lparr>s_lat = Undefined, s_lon = Undefined, streetFromDataset = ''5th Ave'',
                  geocodeQuery = ''5th Ave'', s_updatedAt = Undefined\<rparr>"

definition lat91_env :: pdx_env where
  "lat91_env = \<lparr>PORTLAND_URL = Some ''https://example.test/pdx'',
                 pdx_feed = \<lparr>statusCode = 200, body = LAT91_FEED\<rparr>\<rparr>"

section \<open>Strings and regular expressions: lemmas\<close>

declare rx_replace_all.simps [simp del] rx_find.simps [simp del]

lemma star_space_head:
  "length t \<le> n \<Longrightarrow>
   \<exists>p' rest. star_iter (rx_m (Cls is_space) False) n (p, t, cs) = (p', dropWhile is_space t, cs) # rest"
proof (induction n arbitrary: p t)
  case 0
  then show ?case by simp
next
  case (Suc n)
  show ?case
  proof (cases t)
    case Nil
    then show ?thesis by simp
  next
    case (Cons c t')
    show ?thesis
    proof (cases "is_space c")
      case True
      from Suc.prems Cons have "length t' \<le> n" by simp
      from Suc.IH [OF this, of "Some c"] obtain p' rest where
        "star_iter (rx_m (Cls is_space) False) n (Some c, t', cs) = (p', dropWhile is_space t', cs) # rest"
        by blast
      with True Cons show ?thesis by simp
    next
      case False
      with Cons show ?thesis by simp
    qed
  qed
qed

lemma ws_plus_space:
  "is_space c \<Longrightarrow> \<exists>p' rest. rx_m ws_plus False (p, c # t, []) = (p', dropWhile is_space t, []) # rest"
  using star_space_head [of t "length t" "Some c" "[]"]
  by (simp add: ws_plus_def Plus_def rx_s_def)

lemma ws_plus_nospace: "\<not> is_space c \<Longrightarrow> rx_m ws_plus False (p, c # t, []) = []"
  by (simp add: ws_plus_def Plus_def rx_s_def)

lemma ws_plus_nil: "rx_m ws_plus False (p, [], []) = []"
  by (simp add: ws_plus_def Plus_def rx_s_def)

lemma replace_ws_collapse:
  "rx_replace_all ws_plus False (\<lambda>_ _. '' '') p s = collapse_ws s"
proof (induction "length s" arbitrary: p s rule: less_induct)
  case less
  show ?case
  proof (cases s)
    case Nil
    then show ?thesis by (subst rx_replace_all.simps) (simp add: ws_plus_nil)
  next
    case (Cons c t)
    show ?thesis
    proof (cases "is_space c")
      case True
      from ws_plus_space [OF True, of p t] obtain p' rest where
        m: "rx_m ws_plus False (p, c # t, []) = (p', dropWhile is_space t, []) # rest" by blast
      have len: "length (dropWhile is_space t) < length s"
        using Cons length_dropWhile_le [of is_space t] by simp
      have "rx_replace_all ws_plus False (\<lambda>_ _. '' '') p' (dropWhile is_space t)
            = collapse_ws (dropWhile is_space t)"
        using less [OF len] .
      with m len Cons True show ?thesis by (subst rx_replace_all.simps) simp
    next
      case False
      have "rx_replace_all ws_plus False (\<lambda>_ _. '' '') (Some c) t = collapse_ws t"
        using less [of t "Some c"] Cons by simp
      with False Cons show ?thesis
        by (subst rx_replace_all.simps) (simp add: ws_plus_nospace)
    qed
  qed
qed

lemma is_space_lower [simp]: "is_space (lower_char c) = is_space c"
  by (simp add: is_space_def lower_char_def)

lemma lower_char_idem [simp]: "lower_char (lower_char c) = lower_char c"
  by (simp add: lower_char_def)

lemma lower_space [simp]: "lower_char CHR '' '' = CHR '' ''"
  by (simp add: lower_char_def)

lemma dropWhile_space_lower:
  "dropWhile is_space (map lower_char s) = map lower_char (dropWhile is_space s)"
  by (induction s) auto

lemma collapse_lower: "collapse_ws (map lower_char s) = map lower_char (collapse_ws s)"
  by (induction s rule: collapse_ws.induct) (auto simp: dropWhile_space_lower)

lemma trim_lower: "trim (map lower_char s) = map lower_char (trim s)"
  by (simp add: trim_def dropWhile_space_lower rev_map)

lemma dropWhile_hd_id: "s = [] \<or> \<not> P (hd s) \<Longrightarrow> dropWhile P s = s"
  by (cases s) auto

lemma last_dropWhile: "dropWhile P xs \<noteq> [] \<Longrightarrow> last (dropWhile P xs) = last xs"
  by (induction xs) (auto split: if_splits)

lemma dropWhile_last_nonempty: "s \<noteq> [] \<Longrightarrow> \<not> P (last s) \<Longrightarrow> dropWhile P s \<noteq> []"
  by auto

lemma trim_edges_ok: "edges_ok s \<Longrightarrow> trim s = s"
proof (cases "s = []")
  case True
  then show ?thesis by (simp add: trim_def)
next
  case False
  assume "edges_ok s"
  with False have h: "\<not> is_space (hd s)" and l: "\<not> is_space (last s)"
    by (simp_all add: edges_ok_def)
  have 1: "dropWhile is_space s = s" using h by (simp add: dropWhile_hd_id)
  have "\<not> is_space (hd (rev s))" using l False by (simp add: hd_rev)
  then have 2: "dropWhile is_space (rev s) = rev s" by (simp add: dropWhile_hd_id)
  show ?thesis by (simp add: trim_def 1 2)
qed

lemma edges_ok_trim: "edges_ok (trim s)"
proof -
  define u where "u = dropWhile is_space s"
  define v where "v = dropWhile is_space (rev u)"
  have t: "trim s = rev v" by (simp add: trim_def u_def v_def)
  show ?thesis
  proof (cases "v = []")
    case True
    then show ?thesis by (simp add: t edges_ok_def)
  next
    case False
    then have hv: "\<not> is_space (hd v)" unfolding v_def by (rule hd_dropWhile)
    from False have "rev u \<noteq> []" unfolding v_def by auto
    then have un: "u \<noteq> []" by simp
    then have hu: "\<not> is_space (hd u)" unfolding u_def by (rule hd_dropWhile)
    have "last v = last (rev u)" using False unfolding v_def by (rule last_dropWhile)
    also have "\<dots> = hd u" using un by (simp add: last_rev)
    finally have lv: "\<not> is_space (last v)" using hu by simp
    show ?thesis using False hv lv by (simp add: t edges_ok_def hd_rev last_rev)
  qed
qed

lemma collapse_last:
  "s \<noteq> [] \<Longrightarrow> \<not> is_space (last s) \<Longrightarrow>
   collapse_ws s \<noteq> [] \<and> \<not> is_space (last (collapse_ws s))"
proof (induction s rule: collapse_ws.induct)
  case 1
  then show ?case by simp
next
  case (2 c s)
  show ?case
  proof (cases "is_space c")
    case True
    with "2.prems" have sn: "s \<noteq> []" and ls: "\<not> is_space (last s)"
      by (auto split: if_splits)
    then have dn: "dropWhile is_space s \<noteq> []" by (rule dropWhile_last_nonempty)
    then have "last (dropWhile is_space s) = last s" by (rule last_dropWhile)
    with ls have "\<not> is_space (last (dropWhile is_space s))" by simp
    from "2.IH"(1) [OF True dn this] True show ?thesis by simp
  next
    case False
    show ?thesis
    proof (cases "s = []")
      case True
      with False show ?thesis by simp
    next
      case sn: False
      with "2.prems" have "\<not> is_space (last s)" by simp
      from "2.IH"(2) [OF False sn this] False show ?thesis by simp
    qed
  qed
qed

lemma collapse_hd: "s \<noteq> [] \<Longrightarrow> \<not> is_space (hd s) \<Longrightarrow> hd (collapse_ws s) = hd s"
  by (cases s) auto

lemma collapse_edges_ok: "edges_ok s \<Longrightarrow> edges_ok (collapse_ws s)"
  using collapse_last [of s] collapse_hd [of s] by (cases "s = []") (auto simp: edges_ok_def)

lemma dropWhile_collapse:
  "u = [] \<or> \<not> is_space (hd u) \<Longrightarrow> dropWhile is_space (collapse_ws u) = collapse_ws u"
  by (cases u) auto

lemma collapse_idem: "collapse_ws (collapse_ws s) = collapse_ws s"
proof (induction s rule: collapse_ws.induct)
  case 1
  then show ?case by simp
next
  case (2 c s)
  show ?case
  proof (cases "is_space c")
    case True
    have "dropWhile is_space s = [] \<or> \<not> is_space (hd (dropWhile is_space s))"
      using hd_dropWhile [of is_space s] by blast
    then have "dropWhile is_space (collapse_ws (dropWhile is_space s))
               = collapse_ws (dropWhile is_space s)"
      by (rule dropWhile_collapse)
    with "2.IH"(1) [OF True] True show ?thesis by (simp add: is_space_def)
  next
    case False
    with "2.IH"(2) show ?thesis by simp
  qed
qed

lemma normalizeAddress_alt: "normalizeAddress x = map lower_char (collapse_ws (trim x))"
  by (simp add: normalizeAddress_def toLowerCase_def replace_all_by_def replace_ws_collapse)

section \<open>Numbers, parsers and the geocode log: lemmas\<close>

lemmas num_defs = StringToNumber_def dec_unsigned_def dec_exponent_def digits_val_def digit_val_def
  is_digit_def trim_def is_space_def to_num_def

lemma num_91: "StringToNumber ''91'' = Fin 91"
  by (simp add: num_defs)

lemma num_m1226: "StringToNumber ''-122.6'' = Fin (-122.6)"
  by (simp add: num_defs)

lemma num_m1224: "StringToNumber ''-122.4'' = Fin (-122.4)"
  by (simp add: num_defs)

lemma safeISO_Undefined [simp]: "safeISO h Undefined = Inr Undefined"
  by (simp add: safeISO_def)

lemma safeISO_Str: "\<exists>v. safeISO h (Str s) = Inr v"
  by (simp add: safeISO_def split: option.splits)

lemma json_91:
  "parseJSONVariant h (Arr [Obj [(''lat'', Str ''91''), (''lon'', Str ''-122.6''), (''address'', Str ''1 Main St'')]])
  = Inr [\<lparr>r_lat = Num (Fin 91), r_lon = Num (Fin (-122.6)), r_address = Str ''1 Main St'',
          r_updatedAt = Undefined, r_incidentId = Undefined\<rparr>]"
  by (simp add: parseJSONVariant_def json_rows_def json_row_def coalesce_def and_then_def num_91 num_m1226)

lemma withCity_main: "pdx_withCityState h (Str ''1 Main St'') = Str ''1 Main St, Portland, OR''"
  by (simp add: pdx_withCityState_def toLowerCase_def lower_char_def)

lemma pipeline_91:
  "fst (pdx_pipeline h genv [\<lparr>r_lat = Num (Fin 91), r_lon = Num (Fin (-122.6)), r_address = Str ''1 Main St'',
          r_updatedAt = Undefined, r_incidentId = Undefined\<rparr>] st) = 
     [\<lparr>p_lat = Fin 91, p_lon = Fin (-122.6), p_address = Str ''1 Main St, Portland, OR'',
       p_callTimeReceived = Undefined, p_updatedAt = Undefined\<rparr>]"
  by (simp add: pdx_pipeline_def tidy_def withCity_main pdx_needGeo_def has_coords_def pdx_uniqueMap_def
      pdx_places_def pdx_place_def List.map_filter_simps)

lemma sfp_91:
  "sfp_place_coords (Obj [(''latitude'', Str ''91''), (''longitude'', Str ''-122.4'')]) = Inr (Some (Fin 91, Fin (-122.4)))"
  by (simp add: sfp_place_coords_def extractCoords_def num_91 num_m1224)

lemma json_null: "parseJSONVariant h (Arr [Null]) = Inl TypeError"
  by (simp add: parseJSONVariant_def json_rows_def json_row_def)

lemma map_err_total: "(\<And>x. x \<in> set xs \<Longrightarrow> \<exists>y. f x = Inr y) \<Longrightarrow> \<exists>ys. map_err f xs = Inr ys"
proof (induction xs)
  case Nil
  then show ?case by simp
next
  case (Cons a xs)
  from Cons.prems obtain y where "f a = Inr y" by auto
  moreover from Cons obtain ys where "map_err f xs = Inr ys" by auto
  ultimately show ?case by simp
qed

lemma html_row_total: "\<exists>r. html_row h ia it tds = Inr r"
proof -
  have "\<exists>v. safeISO h (case it of None \<Rightarrow> Undefined
            | Some i \<Rightarrow> if i < length tds then Str (trim (cell_text (tds ! i))) else Undefined) = Inr v"
    using safeISO_Str by (auto split: option.splits)
  then show ?thesis by (auto simp: html_row_def Let_def)
qed

lemma parseHTMLTable_total: "\<exists>rows. parseHTMLTable h text = Inr rows"
  by (auto simp: parseHTMLTable_def Let_def split: option.splits intro!: map_err_total html_row_total)

lemma pdx_rows_not_kml: "\<not> is_kml text \<Longrightarrow> \<exists>rows. pdx_rows h text = Inr rows"
  using parseHTMLTable_total
  by (auto simp: pdx_rows_def Let_def split: option.splits sum.splits)

lemma pdx_rows_plain:
  "\<not> is_kml text \<Longrightarrow> JSON_parse h text = None \<Longrightarrow> \<not> is_html text \<Longrightarrow> pdx_rows h text = Inr []"
  by (simp add: pdx_rows_def)

lemma hav_far:
  "haversineMiles (Num (Fin (- 53.8373)), Num (Fin (- 86.7816))) NASHVILLE_CENTER
   = Fin (3958.7613 * (pi / 2))"
proof -
  have d: "(36.1627 - - 53.8373) * pi / 180 / 2 = pi / (4::real)" by simp
  have s: "sin (pi / 4) * sin (pi / 4) = (1/2::real)"
    by (simp add: sin_45 real_sqrt_mult_self)
  have q: "sqrt (1/2) > (0::real)" by simp
  have a: "atan2 (sqrt (1/2)) (sqrt (1/2)) = pi / 4"
    using q by (simp add: atan2_def arctan_one)
  show ?thesis
    unfolding haversineMiles_def NASHVILLE_CENTER_def Let_def
    by (simp add: d s a)
qed

lemma far_demo:
  "too_far \<lparr>g_lat = Num (Fin (- 53.8373)), g_lon = Num (Fin (- 86.7816)), formatted = f\<rparr>"
proof -
  have "2 \<le> pi" by (rule pi_ge_two)
  then have "(40::real) < 3958.7613 * (pi / 2)" by simp
  then show ?thesis
    unfolding too_far_def finite_result_def geo_result.select_convs hav_far MAX_MILES_def
    by simp
qed

lemma hav_center:
  "haversineMiles (Num (Fin 36.1627), Num (Fin (- 86.7816))) NASHVILLE_CENTER = Fin 0"
  unfolding haversineMiles_def NASHVILLE_CENTER_def Let_def
  by (simp add: atan2_def)

lemma near_demo:
  "\<not> too_far \<lparr>g_lat = Num (Fin 36.1627), g_lon = Num (Fin (- 86.7816)), formatted = f\<rparr>"
  "within_radius \<lparr>g_lat = Num (Fin 36.1627), g_lon = Num (Fin (- 86.7816)), formatted = f\<rparr>"
  unfolding too_far_def within_radius_def finite_result_def geo_result.select_convs hav_center
    MAX_MILES_def
  by simp_all













lemma finite_ToNumber: "Number_isFinite v \<Longrightarrow> isFinite (ToNumber v)"
  by (cases v) simp_all

lemma finite_Num_ToNumber: "Number_isFinite v \<Longrightarrow> Num (ToNumber v) = v"
  by (cases v) simp_all

lemma map_err_set:
  "map_err f xs = Inr ys \<Longrightarrow> y \<in> set ys \<Longrightarrow> \<exists>x \<in> set xs. f x = Inr y"
proof (induction xs arbitrary: ys)
  case Nil
  then show ?case by simp
next
  case (Cons a xs)
  then show ?case by (auto split: sum.splits)
qed

lemma map_filter_id_set: "p \<in> set (List.map_filter id ps) \<longleftrightarrow> Some p \<in> set ps"
  by (induction ps) (auto simp: List.map_filter_simps split: option.splits)

lemma inSF_box:
  "ENFORCE_BBOX conf \<Longrightarrow> inSF conf a b \<Longrightarrow>
   isFinite (ToNumber a) \<and> isFinite (ToNumber b) \<and> in_box conf (ToNumber a) (ToNumber b)"
  by (auto simp: inSF_def finite_ToNumber split: if_splits)

lemma sf_worker_box:
  "ENFORCE_BBOX conf \<Longrightarrow> stored_in_box conf (fst rs) \<Longrightarrow>
   stored_in_box conf (fst (sf_worker h genv conf k rs))"
  by (auto simp: sf_worker_def stored_in_box_def dest!: inSF_box split: prod.splits sum.splits)

lemma sf_foldl_box:
  "ENFORCE_BBOX conf \<Longrightarrow> stored_in_box conf (fst rs) \<Longrightarrow>
   stored_in_box conf (fst (foldl (\<lambda>rs k. sf_worker h genv conf k rs) rs ks))"
  by (induction ks arbitrary: rs) (simp_all add: sf_worker_box)

lemma parse_far: "demo_parse FAR_BODY = Some (hit_json far_result)"
  by (simp add: demo_parse_def)

lemma parse_center: "demo_parse CENTER_BODY = Some (hit_json center_result)"
  by (simp add: demo_parse_def FAR_BODY_def CENTER_BODY_def)

lemma parse_pdx: "demo_parse PDX_BODY = Some (hit_json pdx_result)"
  by (simp add: demo_parse_def FAR_BODY_def CENTER_BODY_def PDX_BODY_def)



lemma parse_pdx_feed: "demo_parse PDX_FEED = Some pdx_feed_json"
  by (simp add: demo_parse_def FAR_BODY_def CENTER_BODY_def PDX_BODY_def NASH_FEED_def NASH_FEED_NATIVE_def PDX_FEED_def)

lemma parse_sf_feed: "demo_parse SF_FEED = Some sf_feed_json"
  by (simp add: demo_parse_def FAR_BODY_def CENTER_BODY_def PDX_BODY_def NASH_FEED_def NASH_FEED_NATIVE_def PDX_FEED_def SF_FEED_def)

lemma parse_null: "demo_parse ''[null]'' = Some (Arr [Null])"
  by (simp add: demo_parse_def FAR_BODY_def CENTER_BODY_def PDX_BODY_def NASH_FEED_def NASH_FEED_NATIVE_def PDX_FEED_def SF_FEED_def)

lemma top_hit_json: "top_hit (hit_json g) = g"
  by (simp add: top_hit_def hit_json_def)

text \<open>A lookup that misses the cache and is answered with a finite top hit.\<close>

lemma geocode_miss:
  assumes "has_key genv" "cached st (normalizeAddress a) = None"
    "statusCode (upstream genv a) < 400"
    "JSON_parse h (body (upstream genv a)) = Some (hit_json g)" "finite_result g"
  shows "geocode h genv a st =
           (Inr g, st\<lparr>calls := calls st @ [a],
                       cache := (cache st)(normalizeAddress a := Some (g, now st + TTL genv * 1000))\<rparr>)"
  using assms by (simp add: geocode_def Let_def top_hit_json finite_result_def)

lemma geocode_hit:
  assumes "has_key genv" "cached st (normalizeAddress a) = Some g"
  shows "geocode h genv a st = (Inr g, st\<lparr>calls := calls st @ [a]\<rparr>)"
  using assms by (simp add: geocode_def Let_def)

lemma too_far_far: "too_far far_result"
  unfolding far_result_def by (rule far_demo)

lemma not_within_far: "\<not> within_radius far_result"
proof -
  have "2 \<le> pi" by (rule pi_ge_two)
  then have "\<not> (3958.7613 * (pi / 2) \<le> (40::real))" by simp
  then show ?thesis
    unfolding within_radius_def far_result_def finite_result_def geo_result.select_convs hav_far
      MAX_MILES_def
    by simp
qed

lemma center_near: "\<not> too_far center_result" "within_radius center_result"
  unfolding center_result_def by (rule near_demo)+

lemma finite_demo: "finite_result far_result" "finite_result center_result" "finite_result pdx_result"
  by (simp_all add: finite_result_def far_result_def center_result_def pdx_result_def)


lemma norm_5th: "normalizeAddress ''5th Ave, Nashville, TN'' = ''5th ave, nashville, tn''"
  by code_simp




lemma has_key_answering: "has_key (answering b)" "has_key retry_env"
  by (simp_all add: has_key_def answering_def retry_env_def)

lemma worker_far_same:
  assumes k: "has_key genv" and c: "cached st (normalizeAddress a) = None"
    and s: "statusCode (upstream genv a) < 400"
    and j: "JSON_parse h (body (upstream genv a)) = Some (hit_json g)"
    and f: "finite_result g" and t: "too_far g" and same: "forceNashville a = a"
    and ttl: "0 < TTL genv"
  shows "fst (nash_worker h genv (k', Str a) (rs, st)) = rs(k' := Some g) \<and>
         calls (snd (nash_worker h genv (k', Str a) (rs, st))) = calls st @ [a, a]"
proof -
  let ?st1 = "st\<lparr>calls := calls st @ [a],
                  cache := (cache st)(normalizeAddress a := Some (g, now st + TTL genv * 1000))\<rparr>"
  have 1: "geocode h genv a st = (Inr g, ?st1)"
    by (rule geocode_miss [OF k c s j f])
  have "cached ?st1 (normalizeAddress a) = Some g"
    using ttl by (simp add: cached_def)
  then have 2: "geocode h genv a ?st1 = (Inr g, ?st1\<lparr>calls := calls ?st1 @ [a]\<rparr>)"
    by (rule geocode_hit [OF k])
  show ?thesis
    using 1 2 t same by (simp add: nash_worker_def Let_def)
qed



lemma geocode_center_st0:
  "geocode demo_host (answering CENTER_BODY) a st0 =
     (Inr center_result,
      st0\<lparr>calls := calls st0 @ [a],
          cache := (cache st0)(normalizeAddress a := Some (center_result, now st0 + TTL (answering CENTER_BODY) * 1000))\<rparr>)"
  by (rule geocode_miss)
     (simp_all add: has_key_def cached_def st0_def answering_def demo_host_def parse_center finite_demo)

lemma kml_null: "\<not> is_kml ''[null]''" "\<not> is_html ''[null]''"
  by code_simp+

lemma parseJSONVariant_raises: "\<not> (\<forall>h json. \<exists>rows. parseJSONVariant h json = Inr rows)"
proof
  assume "\<forall>h json. \<exists>rows. parseJSONVariant h json = Inr rows"
  then obtain rows where "parseJSONVariant demo_host (Arr [Null]) = Inr rows" by blast
  then show False by (simp add: json_null)
qed

lemma null_feed_caught: "pdx_rows demo_host ''[null]'' = Inr []"
  by (simp add: kml_null pdx_rows_def demo_host_def parse_null json_null)

lemma kml_row_toString:
  assumes "getq pm ''description'' = Obj kvs" "map_of kvs ''toString'' \<noteq> None"
  shows "kml_row h pm = Inl TypeError"
  using assms by (simp add: kml_row_def Let_def or_else_def)

lemma is_kml_demo: "is_kml KML_UNCLOSED" "is_kml KML_TOSTRING"
  by code_simp+


lemma withCity_5th:
  "pdx_withCityState h (Str ''5th Ave'') = Str ''5th Ave, Portland, OR''"
  "pdx_withCityState h (Str ''5th   ave'') = Str ''5th   ave, Portland, OR''"
  by (simp_all add: pdx_withCityState_def toLowerCase_def lower_char_def)

lemma norm_pdx_5th:
  "normalizeAddress ''5th Ave, Portland, OR'' = ''5th ave, portland, or''"
  "normalizeAddress ''5th   ave, Portland, OR'' = ''5th ave, portland, or''"
  by code_simp+

lemma pdx_demo_uniq:
  "pdx_uniqueMap h (pdx_needGeo (map (tidy h) pdx_demo_rows))
     = [(''5th ave, portland, or'', Str ''5th Ave, Portland, OR'')]"
  by (simp add: pdx_demo_rows_def tidy_def withCity_5th pdx_needGeo_def has_coords_def
      pdx_uniqueMap_def unique_add_def normalizeAddressV_def or_else_def norm_pdx_5th)

lemma pdx_demo_geocode:
  "pdx_geocode_all demo_host (answering PDX_BODY)
     [(''5th ave, portland, or'', Str ''5th Ave, Portland, OR'')] (\<lambda>k. None) st0
   = ((\<lambda>k. None)(''5th ave, portland, or'' := Some pdx_result),
      st0\<lparr>calls := calls st0 @ [''5th Ave, Portland, OR''],
          cache := (cache st0)(''5th ave, portland, or'' :=
                      Some (pdx_result, now st0 + TTL (answering PDX_BODY) * 1000))\<rparr>)"
proof -
  have "geocode demo_host (answering PDX_BODY) ''5th Ave, Portland, OR'' st0 =
     (Inr pdx_result,
      st0\<lparr>calls := calls st0 @ [''5th Ave, Portland, OR''],
          cache := (cache st0)(normalizeAddress ''5th Ave, Portland, OR'' :=
                      Some (pdx_result, now st0 + TTL (answering PDX_BODY) * 1000))\<rparr>)"
    by (rule geocode_miss)
       (simp_all add: has_key_def cached_def st0_def answering_def demo_host_def parse_pdx finite_demo)
  then show ?thesis by (simp add: norm_pdx_5th)
qed

lemma pdx_demo_pipeline:
  "pdx_pipeline demo_host (answering PDX_BODY) pdx_demo_rows st0 =
     ([\<lparr>p_lat = Fin 45.5, p_lon = Fin (- 122.6),
        p_address = Str ''Southwest 5th Avenue, Portland, OR 97204, USA'',
        p_callTimeReceived = Undefined, p_updatedAt = Undefined\<rparr>,
       \<lparr>p_lat = Fin 45.5, p_lon = Fin (- 122.6),
        p_address = Str ''Southwest 5th Avenue, Portland, OR 97204, USA'',
        p_callTimeReceived = Undefined, p_updatedAt = Undefined\<rparr>],
      st0\<lparr>calls := calls st0 @ [''5th Ave, Portland, OR''],
          cache := (cache st0)(''5th ave, portland, or'' :=
                      Some (pdx_result, now st0 + TTL (answering PDX_BODY) * 1000))\<rparr>)"
  unfolding pdx_pipeline_def Let_def pdx_demo_uniq pdx_demo_geocode
  by (simp add: pdx_demo_rows_def tidy_def withCity_5th pdx_places_def pdx_place_def
      has_coords_def normalizeAddressV_def or_else_def norm_pdx_5th pdx_result_def
      List.map_filter_simps)

lemma retry_failure_drops_original:
  assumes "fst (geocode h genv original st) = Inr g" "too_far g"
    "fst (geocode h genv (forceNashville original) (snd (geocode h genv original st))) = Inl e"
  shows "fst (nash_worker h genv (k, Str original) (rs, st)) = rs"
proof -
  obtain st1 where 1: "geocode h genv original st = (Inr g, st1)"
    using assms(1) by (cases "geocode h genv original st") simp
  obtain st2 where 2: "geocode h genv (forceNashville original) st1 = (Inl e, st2)"
    using assms(3) 1 by (cases "geocode h genv (forceNashville original) st1") simp
  show ?thesis using 1 2 assms(2) by (simp add: nash_worker_def Let_def)
qed

lemma force_memphis:
  "forceNashville ''Memphis, TN'' = ''Memphis, TN''"
  "forced_per_spec ''Memphis, TN'' = ''Memphis, TN, Nashville, TN''"
  "normalizeAddress ''Memphis, TN'' = ''memphis, tn''"
  by code_simp+

lemma retry_keeps_address_ending_in_TN:
  "forceNashville ''Memphis, TN'' = ''Memphis, TN'' \<and>
   forced_per_spec ''Memphis, TN'' = ''Memphis, TN, Nashville, TN'' \<and>
   calls (snd (nash_worker demo_host (answering FAR_BODY) (''memphis, tn'', Str ''Memphis, TN'')
                 (\<lambda>k. None, st0)))
     = [''Memphis, TN'', ''Memphis, TN'']"
proof -
  have "calls (snd (nash_worker demo_host (answering FAR_BODY) (''memphis, tn'', Str ''Memphis, TN'')
                 (\<lambda>k. None, st0)))
        = calls st0 @ [''Memphis, TN'', ''Memphis, TN'']"
    by (rule worker_far_same [where g = far_result and genv = "answering FAR_BODY", THEN conjunct2])
       (simp_all add: has_key_def cached_def st0_def answering_def demo_host_def parse_far
          finite_demo too_far_far force_memphis)
  then show ?thesis by (simp add: force_memphis st0_def)
qed

lemma force_franklin:
  "forceNashville ''1 Main St, Franklin, TN'' = ''1 Main St, Nashville, TN''"
  "normalizeAddress ''1 Main St, Franklin, TN'' = ''1 main st, franklin, tn''"
  "normalizeAddress ''1 Main St, Nashville, TN'' = ''1 main st, nashville, tn''"
  by code_simp+

lemma geocode_franklin:
  "geocode demo_host retry_env ''1 Main St, Franklin, TN'' st0 =
     (Inr far_result,
      st0\<lparr>calls := calls st0 @ [''1 Main St, Franklin, TN''],
          cache := (cache st0)(''1 main st, franklin, tn'' :=
                      Some (far_result, now st0 + TTL retry_env * 1000))\<rparr>)"
proof -
  have "geocode demo_host retry_env ''1 Main St, Franklin, TN'' st0 =
     (Inr far_result,
      st0\<lparr>calls := calls st0 @ [''1 Main St, Franklin, TN''],
          cache := (cache st0)(normalizeAddress ''1 Main St, Franklin, TN'' :=
                      Some (far_result, now st0 + TTL retry_env * 1000))\<rparr>)"
    by (rule geocode_miss)
       (simp_all add: has_key_def cached_def st0_def retry_env_def demo_host_def parse_far finite_demo)
  then show ?thesis by (simp add: force_franklin)
qed

lemma geocode_franklin_retry:
  "fst (geocode demo_host retry_env ''1 Main St, Nashville, TN''
          (snd (geocode demo_host retry_env ''1 Main St, Franklin, TN'' st0))) = Inr center_result"
proof -
  let ?st1 = "st0\<lparr>calls := calls st0 @ [''1 Main St, Franklin, TN''],
          cache := (cache st0)(''1 main st, franklin, tn'' :=
                      Some (far_result, now st0 + TTL retry_env * 1000))\<rparr>"
  have "geocode demo_host retry_env ''1 Main St, Nashville, TN'' ?st1 =
     (Inr center_result,
      ?st1\<lparr>calls := calls ?st1 @ [''1 Main St, Nashville, TN''],
          cache := (cache ?st1)(normalizeAddress ''1 Main St, Nashville, TN'' :=
                      Some (center_result, now ?st1 + TTL retry_env * 1000))\<rparr>)"
    by (rule geocode_miss)
       (simp_all add: has_key_def cached_def st0_def retry_env_def demo_host_def parse_center
          finite_demo force_franklin)
  then show ?thesis by (simp add: geocode_franklin)
qed

lemma geocode_franklin_failing:
  "geocode demo_host failing_retry_env ''1 Main St, Franklin, TN'' st0 =
     (Inr far_result,
      st0\<lparr>calls := calls st0 @ [''1 Main St, Franklin, TN''],
          cache := (cache st0)(''1 main st, franklin, tn'' :=
                      Some (far_result, now st0 + TTL failing_retry_env * 1000))\<rparr>)"
proof -
  have "geocode demo_host failing_retry_env ''1 Main St, Franklin, TN'' st0 =
     (Inr far_result,
      st0\<lparr>calls := calls st0 @ [''1 Main St, Franklin, TN''],
          cache := (cache st0)(normalizeAddress ''1 Main St, Franklin, TN'' :=
                      Some (far_result, now st0 + TTL failing_retry_env * 1000))\<rparr>)"
    by (rule geocode_miss)
       (simp_all add: has_key_def cached_def st0_def failing_retry_env_def demo_host_def parse_far
          finite_demo)
  then show ?thesis by (simp add: force_franklin)
qed

lemma geocode_franklin_retry_fails:
  "fst (geocode demo_host failing_retry_env ''1 Main St, Nashville, TN''
          (snd (geocode demo_host failing_retry_env ''1 Main St, Franklin, TN'' st0)))
     = Inl (GeocodeHTTP 500 ''upstream error'')"
  by (simp add: geocode_franklin_failing)
     (simp add: geocode_def Let_def has_key_def cached_def st0_def failing_retry_env_def
        force_franklin)

lemma sf_strings:
  "trim ''1 Market St'' = ''1 Market St''"
  "sf_withCityState ''1 Market St'' = ''1 Market St, San Francisco, CA''"
  "sf_withCityState ''San Francisco City Hall'' = ''San Francisco City Hall''"
  "normalizeAddress ''San Francisco City Hall'' = ''san francisco city hall''"
  "sf_withCityState ''1 Dr Carlton B Goodlett Pl, San Francisco, CA 94102''
     = ''1 Dr Carlton B Goodlett Pl, San Francisco, CA 94102''"
  "looksStreetSpecific h (Str ''1 Dr Carlton B Goodlett Pl, San Francisco, CA 94102'')"
  by code_simp+

lemma looks_empty: "\<not> looksStreetSpecific h (Str [])"
  by code_simp

lemma looks_undefined: "\<not> looksStreetSpecific h Undefined"
  by code_simp

lemma nash_demo_place:
  "nash_place (\<lambda>k. Some center_result) nash_demo_row
     = Some \<lparr>p_lat = Fin 36.1627, p_lon = Fin (- 86.7816), p_address = Str ''5th Ave, Nashville, TN'',
             p_callTimeReceived = Undefined, p_updatedAt = Undefined\<rparr>"
  by (simp add: nash_place_def nash_demo_row_def norm_5th center_result_def)

lemma geocoded_place:
  "pdx_place h (\<lambda>k. Some pdx_result) geocoded_row
     = Some \<lparr>p_lat = Fin 45.5, p_lon = Fin (- 122.6),
             p_address = Str ''Southwest 5th Avenue, Portland, OR 97204, USA'',
             p_callTimeReceived = Undefined, p_updatedAt = Undefined\<rparr>"
  by (simp add: pdx_place_def geocoded_row_def has_coords_def pdx_result_def or_else_def)

lemma native_place:
  "pdx_place h (\<lambda>k. Some pdx_result) native_row
     = Some \<lparr>p_lat = Fin 45.52, p_lon = Fin (- 122.68), p_address = Str ''1 Main St, Portland, OR'',
             p_callTimeReceived = Undefined, p_updatedAt = Undefined\<rparr>"
  by (simp add: pdx_place_def native_row_def has_coords_def)

lemma trim_Nil: "trim [] = []"
  by (simp add: trim_def)

lemma sf_street_place:
  "sf_place h SF_BBOX_default (\<lambda>k. None) sf_street_row
     = Inr (Some \<lparr>p_lat = Fin 37.77, p_lon = Fin (- 122.42),
                  p_address = Str ''1 Market St, San Francisco, CA'',
                  p_callTimeReceived = Undefined, p_updatedAt = Undefined\<rparr>)"
  by (simp add: sf_place_def sf_coords_def sf_has_coords_def sf_street_row_def inSF_def in_box_def
      SF_BBOX_default_def sf_display_def sf_withCityStateV_def sf_strings)

lemma sf_bare_place:
  "sf_place h SF_BBOX_default (\<lambda>k. Some sf_hall_result) sf_bare_row
     = Inr (Some \<lparr>p_lat = Fin 37.7793, p_lon = Fin (- 122.4193),
                  p_address = Str ''1 Dr Carlton B Goodlett Pl, San Francisco, CA 94102'',
                  p_callTimeReceived = Undefined, p_updatedAt = Undefined\<rparr>)"
  by (simp add: sf_place_def sf_coords_def sf_has_coords_def sf_bare_row_def inSF_def in_box_def
      SF_BBOX_default_def sf_display_def sf_withCityStateV_def sf_strings sf_hall_result_def
      sf_query_key_def trim_Nil)

lemma cabrillo_strings:
  "trim ''100 Cabrillo St'' = ''100 Cabrillo St''"
  "sf_withCityState ''100 Cabrillo St'' = ''100 Cabrillo St''"
  by code_simp+

lemma sf_cabrillo_place:
  "sf_place h SF_BBOX_default (\<lambda>k. None) sf_cabrillo_row
     = Inr (Some \<lparr>p_lat = Fin 37.775, p_lon = Fin (- 122.49), p_address = Str ''100 Cabrillo St'',
                  p_callTimeReceived = Undefined, p_updatedAt = Undefined\<rparr>)"
  by (simp add: sf_place_def sf_coords_def sf_has_coords_def sf_cabrillo_row_def inSF_def in_box_def
      SF_BBOX_default_def sf_display_def cabrillo_strings sf_withCityStateV_def)

lemma host_parse: "JSON_parse demo_host = demo_parse"
  by (simp add: demo_host_def)



lemma num_sf:
  "StringToNumber ''37.77'' = Fin 37.77"
  "StringToNumber ''-122.42'' = Fin (- 122.42)"
  by (simp_all add: num_defs)

lemma sf_strings2:
  "trim ''5th Ave'' = ''5th Ave''"
  "sf_withCityState ''5th Ave'' = ''5th Ave, San Francisco, CA''"
  "normalizeAddress ''5th Ave, San Francisco, CA'' = ''5th ave, san francisco, ca''"
  by code_simp+

lemma sf_prelim_street:
  "sf_prelim h SF_BBOX_default
     (Obj [(''latitude'', Str ''37.77''), (''longitude'', Str ''-122.42''), (''address'', Str ''1 Market St'')])
   = Inr sf_street_row"
  by (simp add: sf_prelim_def sf_toISO_def extractCoordsStrict_def num_sf inSF_def in_box_def SF_BBOX_default_def
      bestStreetFromDataset_def bestAddressForGeocode_def s_trim_def pick_def coalesce_def str_or_def
      sf_strings sf_street_row_def)

lemma sf_prelim_geo:
  "sf_prelim h SF_BBOX_default (Obj [(''address'', Str ''5th Ave'')]) = Inr sf_geo_row"
  by (simp add: sf_prelim_def sf_toISO_def extractCoordsStrict_def inSF_def or_else_def
      bestStreetFromDataset_def bestAddressForGeocode_def s_trim_def pick_def coalesce_def str_or_def
      sf_strings2 sf_geo_row_def)

lemma sf_demo_uniq:
  "sf_uniqueMap h [sf_street_row, sf_geo_row]
     = [(''5th ave, san francisco, ca'', Str ''5th Ave, San Francisco, CA'')]"
  by (simp add: sf_uniqueMap_def sf_has_coords_def sf_street_row_def sf_geo_row_def unique_add_def
      normalizeAddressV_def or_else_def sf_strings2)

lemma geocode_pdx_st0:
  "geocode demo_host (answering PDX_BODY) a st0 =
     (Inr pdx_result,
      st0\<lparr>calls := calls st0 @ [a],
          cache := (cache st0)(normalizeAddress a := Some (pdx_result, now st0 + TTL (answering PDX_BODY) * 1000))\<rparr>)"
  by (rule geocode_miss)
     (simp_all add: has_key_def cached_def st0_def answering_def host_parse parse_pdx finite_demo)

lemma pdx_outside_box:
  "\<not> inSF SF_BBOX_default (Num (ToNumber (g_lat pdx_result))) (Num (ToNumber (g_lon pdx_result)))"
  by (simp add: inSF_def in_box_def SF_BBOX_default_def pdx_result_def)

lemma sf_demo_geocode:
  "fst (sf_geocode_all demo_host (answering PDX_BODY) SF_BBOX_default
          [(''5th ave, san francisco, ca'', Str ''5th Ave, San Francisco, CA'')] st0) = (\<lambda>k. None)"
  by (simp add: sf_geocode_all_def sf_worker_def geocode_pdx_st0 pdx_outside_box)

lemma sf_geo_dropped:
  "sf_place h SF_BBOX_default (\<lambda>k. None) sf_geo_row = Inr None"
  by (simp add: sf_place_def sf_coords_def sf_has_coords_def sf_geo_row_def inSF_def)

lemma sf_demo_places:
  "sf_places h SF_BBOX_default (\<lambda>k. None) [sf_street_row, sf_geo_row]
     = Inr [\<lparr>p_lat = Fin 37.77, p_lon = Fin (- 122.42),
              p_address = Str ''1 Market St, San Francisco, CA'',
              p_callTimeReceived = Undefined, p_updatedAt = Undefined\<rparr>]"
  by (simp add: sf_places_def sf_street_place sf_geo_dropped List.map_filter_simps)

lemma sf_demo_fetch:
  "fst (sf_fetchCity demo_host (answering PDX_BODY) SF_BBOX_default
          \<lparr>statusCode = 200, body = SF_FEED\<rparr> st0)
     = Inr [\<lparr>p_lat = Fin 37.77, p_lon = Fin (- 122.42),
              p_address = Str ''1 Market St, San Francisco, CA'',
              p_callTimeReceived = Undefined, p_updatedAt = Undefined\<rparr>]"
  by (simp add: sf_fetchCity_def host_parse parse_sf_feed sf_feed_json_def sf_prelim_street
      sf_prelim_geo sf_demo_uniq case_prod_beta sf_demo_geocode sf_demo_places)

lemma parse_91:
  "demo_parse LAT91_FEED = Some lat91_json"
  "demo_parse SF91_FEED = Some sf91_json"
  by (simp_all add: demo_parse_def FAR_BODY_def CENTER_BODY_def PDX_BODY_def NASH_FEED_def
      NASH_FEED_NATIVE_def PDX_FEED_def SF_FEED_def LAT91_FEED_def SF91_FEED_def)

lemma not_kml_91: "\<not> is_kml LAT91_FEED"
  by code_simp






lemma white_run_free:
  "\<forall>c \<in> set w. \<not> is_white c \<Longrightarrow> replace_white_runs (w @ s) = w @ replace_white_runs s"
  by (induction w) simp_all

lemma white_free_id: "\<forall>c \<in> set w. \<not> is_white c \<Longrightarrow> replace_white_runs w = w"
  using white_run_free [of w "[]"] by simp

lemma space_white: "is_white 0x20"
  by (simp add: is_white_def)

lemma spaced_nonempty: "spaced s \<Longrightarrow> s \<noteq> []"
  by (induction rule: spaced.induct) simp_all

lemma spaced_hd: "spaced s \<Longrightarrow> \<not> is_white (hd s)"
  by (induction rule: spaced.induct) (auto simp: hd_append)

lemma spaced_last: "spaced s \<Longrightarrow> \<not> is_white (last s)"
  by (induction rule: spaced.induct) (auto simp: spaced_nonempty)

lemma dropWhile_keep: "s \<noteq> [] \<Longrightarrow> \<not> P (hd s) \<Longrightarrow> dropWhile P s = s"
  by (cases s) simp_all

lemma spaced_runs: "spaced s \<Longrightarrow> replace_white_runs s = s"
proof (induction rule: spaced.induct)
  case (one w)
  then show ?case by (simp add: white_free_id)
next
  case (more w t)
  then show ?case
    by (simp add: white_run_free space_white dropWhile_keep spaced_nonempty spaced_hd)
qed

lemma spaced_trim: "spaced s \<Longrightarrow> trim16 s = s"
proof -
  assume s: "spaced s"
  then have 1: "dropWhile is_white s = s"
    by (simp add: dropWhile_keep spaced_nonempty spaced_hd)
  from s have "rev s \<noteq> []" "\<not> is_white (hd (rev s))"
    by (simp_all add: spaced_nonempty spaced_last hd_rev)
  then have "dropWhile is_white (rev s) = rev s" by (rule dropWhile_keep)
  with 1 show ?thesis by (simp add: trim16_def)
qed

lemma trim16_edges:
  "trim16 s = [] \<or> (\<not> is_white (hd (trim16 s)) \<and> \<not> is_white (last (trim16 s)))"
proof (cases "trim16 s = []")
  case True
  then show ?thesis by simp
next
  case False
  let ?d = "dropWhile is_white s"
  let ?e = "dropWhile is_white (rev ?d)"
  from False have e: "?e \<noteq> []" by (simp add: trim16_def)
  then have he: "\<not> is_white (hd ?e)" by (rule hd_dropWhile)
  have d: "?d \<noteq> []"
  proof
    assume "?d = []"
    then have "?e = []" by (metis dropWhile.simps(1) rev.simps(1))
    with e show False by simp
  qed
  then have hd: "\<not> is_white (hd ?d)" by (rule hd_dropWhile)
  have l: "last (trim16 s) = hd ?e" using e by (simp add: trim16_def last_rev)
  have "last ?e = last (rev ?d)" using e by (rule last_dropWhile)
  then have "last ?e = hd ?d" using d by (simp add: last_rev)
  then have "hd (trim16 s) = hd ?d" using e by (simp add: trim16_def hd_rev)
  with hd he l show ?thesis by simp
qed

lemma runs_spaced:
  "length t \<le> n \<Longrightarrow> t \<noteq> [] \<Longrightarrow> \<not> is_white (hd t) \<Longrightarrow> \<not> is_white (last t)
   \<Longrightarrow> spaced (replace_white_runs t)"
proof (induction n arbitrary: t)
  case 0
  then show ?case by simp
next
  case (Suc n)
  let ?w = "takeWhile (\<lambda>c. \<not> is_white c) t"
  let ?r = "dropWhile (\<lambda>c. \<not> is_white c) t"
  have t: "t = ?w @ ?r" by simp
  have w: "?w \<noteq> []" "\<forall>c \<in> set ?w. \<not> is_white c"
    using Suc.prems(2,3) by (cases t, simp_all) (auto dest: set_takeWhileD)
  show ?case
  proof (cases ?r)
    case Nil
    then have "t = ?w" using t by (metis append_Nil2)
    then have "replace_white_runs t = ?w" using w(2) white_free_id by metis
    with w show ?thesis by (simp add: spaced.one)
  next
    case (Cons c r)
    then have c: "is_white c" using hd_dropWhile [of "\<lambda>c. \<not> is_white c" t] by auto
    let ?u = "dropWhile is_white r"
    have tt: "t = ?w @ c # r" using t Cons by simp
    have lr: "last t = last (c # r)" using tt by (metis last_appendR list.distinct(1))
    have "r \<noteq> []" using lr c Suc.prems(4) by auto
    then have lr2: "last r = last t" using lr by simp
    then have nl: "\<not> is_white (last r)" using Suc.prems(4) by simp
    have u: "?u \<noteq> []"
      using dropWhile_last_nonempty [of r is_white] \<open>r \<noteq> []\<close> nl by blast
    then have hu: "\<not> is_white (hd ?u)" by (rule hd_dropWhile)
    have lu: "\<not> is_white (last ?u)" using last_dropWhile [OF u] lr2 Suc.prems(4) by simp
    have "length t = length ?w + Suc (length r)" using tt by (metis length_append length_Cons)
    then have "length ?u \<le> n" using Suc.prems(1) length_dropWhile_le [of is_white r] by linarith
    from Suc.IH [OF this u hu lu] have sp: "spaced (replace_white_runs ?u)" .
    have "replace_white_runs t = ?w @ 0x20 # replace_white_runs ?u"
      using tt w(2) c white_run_free [of ?w "c # r"] by simp
    with sp w show ?thesis by (simp add: spaced.more)
  qed
qed

lemma trimmed_runs:
  "trim16 x = [] \<or> spaced (replace_white_runs (trim16 x))"
  using trim16_edges [of x] runs_spaced [of "trim16 x" "length (trim16 x)"] by auto

lemma lowering_spaced:
  assumes "lowering f" and "spaced s"
  shows "spaced (f s)"
  using assms(2)
proof (induction rule: spaced.induct)
  case (one w)
  then have "f w \<noteq> []" "\<forall>c \<in> set (f w). \<not> is_white c"
    using assms(1) unfolding lowering_def by blast+
  then show ?case by (rule spaced.one)
next
  case (more w t)
  then have "f w \<noteq> []" "\<forall>c \<in> set (f w). \<not> is_white c"
    using assms(1) unfolding lowering_def by blast+
  moreover have "f (w @ 0x20 # t) = f w @ 0x20 # f t"
    using assms(1) unfolding lowering_def by blast
  ultimately show ?case using more by (simp add: spaced.more)
qed

lemma lowering_Nil: "lowering f \<Longrightarrow> f [] = []"
  unfolding lowering_def by (metis empty_iff empty_set)

lemma normalizeAddress16_idem:
  assumes "lowering f"
  shows "normalizeAddress16 f (normalizeAddress16 f x) = normalizeAddress16 f x"
proof -
  let ?z = "replace_white_runs (trim16 x)"
  have idem: "f (f ?z) = f ?z" using assms unfolding lowering_def by blast
  from trimmed_runs [of x] show ?thesis
  proof
    assume "trim16 x = []"
    then have z: "?z = []" by simp
    then have "f ?z = []" using lowering_Nil [OF assms] by simp
    then show ?thesis using z lowering_Nil [OF assms]
      by (simp add: normalizeAddress16_def trim16_def)
  next
    assume "spaced ?z"
    then have s: "spaced (f ?z)" by (rule lowering_spaced [OF assms])
    then have "replace_white_runs (trim16 (f ?z)) = f ?z"
      by (simp add: spaced_trim spaced_runs)
    then show ?thesis by (simp add: normalizeAddress16_def idem)
  qed
qed

lemma normalizeAddress_idem_bytes: "normalizeAddress (normalizeAddress x) = normalizeAddress x"
  by (simp add: normalizeAddress_alt trim_lower collapse_lower trim_edges_ok
      collapse_edges_ok edges_ok_trim collapse_idem)

lemma char_eq_units: "(c = d) = ((of_char c :: nat) = of_char d)"
  by simp

lemma is_space_units: "is_space c = ((of_char c :: nat) \<in> {9, 10, 11, 12, 13, 32})"
  unfolding is_space_def list.set insert_iff empty_iff char_eq_units [of c]
  by simp

lemma white_ascii: "(of_char c :: nat) < 128 \<Longrightarrow> is_white (of_char c) = is_space c"
  unfolding is_space_units by (auto simp: is_white_def)

lemma lower_units:
  "(of_char (lower_char c) :: nat)
      = (if 0x41 \<le> (of_char c :: nat) \<and> (of_char c :: nat) \<le> 0x5A then of_char c + 0x20 else of_char c)"
proof -
  define n :: nat where "n = of_char c"
  have "(of_char (lower_char c) :: nat) =
          (if n = 65 then 97 else if n = 66 then 98 else if n = 67 then 99 else if n = 68 then 100
           else if n = 69 then 101 else if n = 70 then 102 else if n = 71 then 103
           else if n = 72 then 104 else if n = 73 then 105 else if n = 74 then 106
           else if n = 75 then 107 else if n = 76 then 108 else if n = 77 then 109
           else if n = 78 then 110 else if n = 79 then 111 else if n = 80 then 112
           else if n = 81 then 113 else if n = 82 then 114 else if n = 83 then 115
           else if n = 84 then 116 else if n = 85 then 117 else if n = 86 then 118
           else if n = 87 then 119 else if n = 88 then 120 else if n = 89 then 121
           else if n = 90 then 122 else n)"
    unfolding n_def lower_char_def by (simp add: char_eq_units [of c])
  also have "\<dots> = (if 65 \<le> n \<and> n \<le> 90 then n + 32 else n)"
    by (simp; presburger)
  finally show ?thesis by (simp add: n_def)
qed

text \<open>On ASCII text the byte strings and the code units agree.\<close>

lemma ascii_dropWhile: "ascii s \<Longrightarrow> ascii (dropWhile P s)"
  by (auto simp: ascii_def dest: set_dropWhileD)

lemma ascii_rev: "ascii (rev s) = ascii s"
  by (simp add: ascii_def)

lemma ascii_trim: "ascii s \<Longrightarrow> ascii (trim s)"
  by (simp add: trim_def ascii_rev ascii_dropWhile)

lemma dropWhile_units:
  "ascii s \<Longrightarrow> dropWhile is_white (units s) = units (dropWhile is_space s)"
  by (induction s) (simp_all add: units_def ascii_def white_ascii)

lemma units_rev: "units (rev s) = rev (units s)"
  by (simp add: units_def rev_map)

lemma trim_units: "ascii s \<Longrightarrow> trim16 (units s) = units (trim s)"
proof -
  assume a: "ascii s"
  then have "ascii (rev (dropWhile is_space s))" by (simp add: ascii_rev ascii_dropWhile)
  from dropWhile_units [OF this] dropWhile_units [OF a] show ?thesis
    by (simp add: trim16_def trim_def units_rev)
qed

lemma runs_units: "ascii s \<Longrightarrow> replace_white_runs (units s) = units (collapse_ws s)"
proof (induction s rule: collapse_ws.induct)
  case 1
  then show ?case by (simp add: units_def)
next
  case (2 c s)
  from "2.prems" have c: "is_white (of_char c) = is_space c" and s: "ascii s"
    by (simp_all add: ascii_def white_ascii)
  from s have d: "ascii (dropWhile is_space s)" by (rule ascii_dropWhile)
  show ?case
  proof (cases "is_space c")
    case True
    with "2.IH"(1) d c dropWhile_units [OF s] show ?thesis by (simp add: units_def)
  next
    case False
    with "2.IH"(2) s c show ?thesis by (simp add: units_def)
  qed
qed

lemma ascii_collapse: "ascii s \<Longrightarrow> ascii (collapse_ws s)"
proof (induction s rule: collapse_ws.induct)
  case 1
  then show ?case by simp
next
  case (2 c s)
  from "2.prems" have s: "ascii s" and c: "(of_char c :: nat) < 128" by (simp_all add: ascii_def)
  from s have d: "ascii (dropWhile is_space s)" by (rule ascii_dropWhile)
  show ?case
  proof (cases "is_space c")
    case True
    with "2.IH"(1) d show ?thesis by (simp add: ascii_def)
  next
    case False
    with "2.IH"(2) s c show ?thesis by (simp add: ascii_def)
  qed
qed

lemma ascii_lower16_units: "ascii_lower16 (units t) = units (toLowerCase t)"
  by (simp add: ascii_lower16_def units_def toLowerCase_def lower_units)

lemma normalizeAddress_units:
  assumes "ascii s" and "\<forall>t. ascii t \<longrightarrow> f (units t) = units (toLowerCase t)"
  shows "normalizeAddress16 f (units s) = units (normalizeAddress s)"
proof -
  from assms(1) have "ascii (collapse_ws (trim s))" by (simp add: ascii_trim ascii_collapse)
  with assms(2) have "f (units (collapse_ws (trim s))) = units (toLowerCase (collapse_ws (trim s)))"
    by blast
  then show ?thesis
    using assms(1)
    by (simp add: normalizeAddress16_def trim_units runs_units ascii_trim normalizeAddress_alt
        toLowerCase_def)
qed

lemma lower_not_white: "65 \<le> c \<Longrightarrow> c \<le> 90 \<Longrightarrow> \<not> is_white (c + 32)"
  unfolding is_white_def list.set insert_iff empty_iff by presburger

lemma lowering_ascii: "lowering ascii_lower16"
proof -
  have 1: "ascii_lower16 (ascii_lower16 s) = ascii_lower16 s" for s
    by (induction s) (simp_all add: ascii_lower16_def)
  have 2: "ascii_lower16 (a @ 0x20 # b) = ascii_lower16 a @ 0x20 # ascii_lower16 b" for a b
    by (simp add: ascii_lower16_def)
  have 3: "(\<forall>c \<in> set (ascii_lower16 s). \<not> is_white c) \<and> (ascii_lower16 s = [] \<longleftrightarrow> s = [])"
    if "\<forall>c \<in> set s. \<not> is_white c" for s
    using that
  proof (induction s)
    case Nil
    then show ?case by (simp add: ascii_lower16_def)
  next
    case (Cons a s)
    then show ?case using lower_not_white [of a] by (simp add: ascii_lower16_def)
  qed
  from 1 2 3 show ?thesis unfolding lowering_def by blast
qed

lemma units_5th: "units ''5th'' = [0x35, 0x74, 0x68]" "units ''Ave'' = [0x41, 0x76, 0x65]"
  "units ''5th ave'' = [0x35, 0x74, 0x68, 0x20, 0x61, 0x76, 0x65]"
  by (simp_all add: units_def)

lemma white_examples: "is_white 0xA0" "is_white 0x20" "\<not> is_white 0x35" "\<not> is_white 0x74"
  "\<not> is_white 0x68" "\<not> is_white 0x41" "\<not> is_white 0x76" "\<not> is_white 0x65" "\<not> is_white 0x61"
  by (simp_all add: is_white_def)

lemma nbsp_example:
  "normalizeAddress16 ascii_lower16 (units ''5th'' @ [0xA0, 0xA0] @ units ''Ave'') = units ''5th ave''"
  unfolding units_5th
  by (simp add: normalizeAddress16_def trim16_def white_examples ascii_lower16_def)

section \<open>The claims\<close>

text \<open>
  C1. A latitude outside \<open>[-90, 90]\<close> is emitted. With a \<open>JSON.parse\<close> that reads the two
  feeds as the values they denote, \<open>fetchCity\<close> of the Portland adapter on the feed
  \<open>[{"lat": "91", "lon": "-122.6", "address": "1 Main St"}]\<close> returns, whatever the
  geocoder and its cache, one place of latitude 91, which is outside the range of the
  invariant; and \<open>fetchCity\<close> of the San Francisco adapter without geocoding on the feed
  \<open>[{"latitude": "91", "longitude": "-122.4"}]\<close> emits a place at \<open>(91, -122.4)\<close>. The
  adapters test that a coordinate is finite, never its range.
\<close>

theorem out_of_range_latitude_emitted:
  assumes "JSON_parse h LAT91_FEED = Some lat91_json"
    and "JSON_parse h SF91_FEED = Some sf91_json"
    and "url_set (PORTLAND_URL env)"
    and "pdx_feed env = \<lparr>statusCode = 200, body = LAT91_FEED\<rparr>"
  shows "fst (pdx_fetchCity h genv env st) = Inr [place91] \<and>
         p_lat place91 = Fin 91 \<and> \<not> valid_place place91 \<and>
         sfp_fetchCity_coords h \<lparr>statusCode = 200, body = SF91_FEED\<rparr> = Inr [(Fin 91, Fin (- 122.4))]"
proof -
  have r: "pdx_rows h LAT91_FEED
             = Inr [\<lparr>r_lat = Num (Fin 91), r_lon = Num (Fin (- 122.6)), r_address = Str ''1 Main St'',
                     r_updatedAt = Undefined, r_incidentId = Undefined\<rparr>]"
    using assms(1) json_91 [of h] by (simp add: pdx_rows_def not_kml_91 lat91_json_def)
  have 1: "fst (pdx_fetchCity h genv env st) = Inr [place91]"
    using assms(3,4) pipeline_91 [of h genv st]
    by (simp add: pdx_fetchCity_def r case_prod_beta place91_def)
  have 2: "p_lat place91 = Fin 91 \<and> \<not> valid_place place91"
    by (simp add: valid_place_def place91_def)
  have 3: "sfp_fetchCity_coords h \<lparr>statusCode = 200, body = SF91_FEED\<rparr> = Inr [(Fin 91, Fin (- 122.4))]"
    using assms(2) sfp_91 by (simp add: sfp_fetchCity_coords_def sf91_json_def List.map_filter_simps)
  from 1 2 3 show ?thesis by blast
qed

text \<open>
  The two feeds with the example host and the empty cache.
\<close>

theorem out_of_range_latitude_emitted_witness:
  "fst (pdx_fetchCity demo_host (answering PDX_BODY) lat91_env st0) = Inr [place91] \<and>
   \<not> valid_place place91 \<and>
   sfp_fetchCity_coords demo_host \<lparr>statusCode = 200, body = SF91_FEED\<rparr> = Inr [(Fin 91, Fin (- 122.4))]"
proof -
  have a: "JSON_parse demo_host LAT91_FEED = Some lat91_json"
    "JSON_parse demo_host SF91_FEED = Some sf91_json"
    by (simp_all add: host_parse parse_91)
  have b: "url_set (PORTLAND_URL lat91_env)"
    "pdx_feed lat91_env = \<lparr>statusCode = 200, body = LAT91_FEED\<rparr>"
    by (simp_all add: lat91_env_def url_set_def)
  from out_of_range_latitude_emitted [OF a b, where genv = "answering PDX_BODY" and st = st0]
  show ?thesis by blast
qed

text \<open>
  C2. The Nashville worker, on an address whose first lookup returns a result \<open>g\<close>:
  when \<open>g\<close> is not more than 40 miles from the centre it is stored, with no second
  lookup; when it is, the second lookup is made with \<open>forceNashville\<close> of the address,
  and if that lookup returns \<open>g2\<close>, the worker stores \<open>g2\<close> when \<open>g2\<close> is within 40 miles
  and \<open>g\<close> otherwise. If the second lookup raises, the worker stores nothing: the first
  result is lost, where the specification keeps it. The forced address replaces a
  trailing \<open>", <other>, TN"\<close> or appends \<open>", Nashville, TN"\<close>, except that an address
  ending in \<open>TN\<close> with no such trailing part is left as it is.
\<close>

theorem nash_retry_policy:
  assumes "fst (geocode h genv original st) = Inr g"
  shows "(\<not> too_far g \<longrightarrow>
            nash_worker h genv (k, Str original) (rs, st)
              = (rs(k := Some g), snd (geocode h genv original st))) \<and>
         (too_far g \<longrightarrow>
            (\<forall>g2. fst (geocode h genv (forceNashville original) (snd (geocode h genv original st))) = Inr g2 \<longrightarrow>
               nash_worker h genv (k, Str original) (rs, st)
                 = (rs(k := Some (if within_radius g2 then g2 else g)),
                    snd (geocode h genv (forceNashville original) (snd (geocode h genv original st)))))) \<and>
         (too_far g \<longrightarrow>
            (\<forall>e. fst (geocode h genv (forceNashville original) (snd (geocode h genv original st))) = Inl e \<longrightarrow>
               fst (nash_worker h genv (k, Str original) (rs, st)) = rs)) \<and>
         forceNashville original =
           (if ends_in_TN original \<and> \<not> rx_test TRAILING_CITY_TN True original then original
            else forced_per_spec original)"
proof -
  obtain st1 where 1: "geocode h genv original st = (Inr g, st1)"
    using assms by (cases "geocode h genv original st") simp
  have a: "\<not> too_far g \<longrightarrow>
            nash_worker h genv (k, Str original) (rs, st)
              = (rs(k := Some g), snd (geocode h genv original st))"
    using 1 by (simp add: nash_worker_def Let_def)
  have b: "too_far g \<longrightarrow>
            (\<forall>g2. fst (geocode h genv (forceNashville original) (snd (geocode h genv original st))) = Inr g2 \<longrightarrow>
               nash_worker h genv (k, Str original) (rs, st)
                 = (rs(k := Some (if within_radius g2 then g2 else g)),
                    snd (geocode h genv (forceNashville original) (snd (geocode h genv original st)))))"
  proof (intro impI allI)
    fix g2
    assume t: "too_far g"
      and "fst (geocode h genv (forceNashville original) (snd (geocode h genv original st))) = Inr g2"
    then obtain st2 where 2: "geocode h genv (forceNashville original) st1 = (Inr g2, st2)"
      using 1 by (cases "geocode h genv (forceNashville original) st1") simp
    show "nash_worker h genv (k, Str original) (rs, st)
                 = (rs(k := Some (if within_radius g2 then g2 else g)),
                    snd (geocode h genv (forceNashville original) (snd (geocode h genv original st))))"
      using 1 2 t by (simp add: nash_worker_def Let_def)
  qed
  have c: "forceNashville original =
           (if ends_in_TN original \<and> \<not> rx_test TRAILING_CITY_TN True original then original
            else forced_per_spec original)"
    by (simp add: forceNashville_def forced_per_spec_def ends_in_TN_def)
  have d: "too_far g \<longrightarrow>
            (\<forall>e. fst (geocode h genv (forceNashville original) (snd (geocode h genv original st))) = Inl e \<longrightarrow>
               fst (nash_worker h genv (k, Str original) (rs, st)) = rs)"
    using retry_failure_drops_original [OF assms] by blast
  from a b c d show ?thesis by blast
qed

text \<open>
  On concrete addresses: a first result far away and a retry in Nashville, which is
  stored; a first result in Nashville, stored with no retry; a first result far away
  and a retry answered with the status 500, after which nothing is stored.
\<close>

theorem nash_retry_policy_witness:
  "fst (geocode demo_host retry_env ''1 Main St, Franklin, TN'' st0) = Inr far_result \<and>
   too_far far_result \<and>
   forceNashville ''1 Main St, Franklin, TN'' = ''1 Main St, Nashville, TN'' \<and>
   within_radius center_result \<and>
   fst (nash_worker demo_host retry_env (''1 main st, franklin, tn'', Str ''1 Main St, Franklin, TN'')
          (\<lambda>k. None, st0)) ''1 main st, franklin, tn'' = Some center_result \<and>
   fst (geocode demo_host (answering CENTER_BODY) ''5th Ave, Nashville, TN'' st0) = Inr center_result \<and>
   \<not> too_far center_result \<and>
   fst (nash_worker demo_host (answering CENTER_BODY) (''5th ave, nashville, tn'', Str ''5th Ave, Nashville, TN'')
          (\<lambda>k. None, st0)) ''5th ave, nashville, tn'' = Some center_result \<and>
   fst (geocode demo_host failing_retry_env ''1 Main St, Franklin, TN'' st0) = Inr far_result \<and>
   fst (geocode demo_host failing_retry_env ''1 Main St, Nashville, TN''
          (snd (geocode demo_host failing_retry_env ''1 Main St, Franklin, TN'' st0)))
     = Inl (GeocodeHTTP 500 ''upstream error'') \<and>
   fst (nash_worker demo_host failing_retry_env
          (''1 main st, franklin, tn'', Str ''1 Main St, Franklin, TN'') (\<lambda>k. None, st0))
     ''1 main st, franklin, tn'' = None"
proof -
  have f1: "fst (geocode demo_host retry_env ''1 Main St, Franklin, TN'' st0) = Inr far_result"
    by (simp add: geocode_franklin)
  have f2: "fst (geocode demo_host retry_env (forceNashville ''1 Main St, Franklin, TN'')
              (snd (geocode demo_host retry_env ''1 Main St, Franklin, TN'' st0))) = Inr center_result"
    unfolding force_franklin by (rule geocode_franklin_retry)
  from nash_retry_policy [OF f1, of "''1 main st, franklin, tn''" "\<lambda>k. None"] too_far_far f2
  have "nash_worker demo_host retry_env (''1 main st, franklin, tn'', Str ''1 Main St, Franklin, TN'')
          (\<lambda>k. None, st0)
        = ((\<lambda>k. None)(''1 main st, franklin, tn'' := Some (if within_radius center_result then center_result else far_result)),
           snd (geocode demo_host retry_env (forceNashville ''1 Main St, Franklin, TN'')
                  (snd (geocode demo_host retry_env ''1 Main St, Franklin, TN'' st0))))"
    by blast
  then have w1: "fst (nash_worker demo_host retry_env (''1 main st, franklin, tn'', Str ''1 Main St, Franklin, TN'')
          (\<lambda>k. None, st0)) ''1 main st, franklin, tn'' = Some center_result"
    by (simp add: center_near)
  have n1: "fst (geocode demo_host (answering CENTER_BODY) ''5th Ave, Nashville, TN'' st0) = Inr center_result"
    by (simp add: geocode_center_st0)
  from nash_retry_policy [OF n1, of "''5th ave, nashville, tn''" "\<lambda>k. None"] center_near(1)
  have "nash_worker demo_host (answering CENTER_BODY) (''5th ave, nashville, tn'', Str ''5th Ave, Nashville, TN'')
          (\<lambda>k. None, st0)
        = ((\<lambda>k. None)(''5th ave, nashville, tn'' := Some center_result),
           snd (geocode demo_host (answering CENTER_BODY) ''5th Ave, Nashville, TN'' st0))"
    by blast
  then have w2: "fst (nash_worker demo_host (answering CENTER_BODY) (''5th ave, nashville, tn'', Str ''5th Ave, Nashville, TN'')
          (\<lambda>k. None, st0)) ''5th ave, nashville, tn'' = Some center_result"
    by simp
  have g1: "fst (geocode demo_host failing_retry_env ''1 Main St, Franklin, TN'' st0) = Inr far_result"
    by (simp add: geocode_franklin_failing)
  have g2: "fst (geocode demo_host failing_retry_env (forceNashville ''1 Main St, Franklin, TN'')
              (snd (geocode demo_host failing_retry_env ''1 Main St, Franklin, TN'' st0)))
            = Inl (GeocodeHTTP 500 ''upstream error'')"
    unfolding force_franklin by (rule geocode_franklin_retry_fails)
  from nash_retry_policy [OF g1, of "''1 main st, franklin, tn''" "\<lambda>k. None"] too_far_far g2
  have "fst (nash_worker demo_host failing_retry_env
          (''1 main st, franklin, tn'', Str ''1 Main St, Franklin, TN'') (\<lambda>k. None, st0)) = (\<lambda>k. None)"
    by blast
  then have w3: "fst (nash_worker demo_host failing_retry_env
          (''1 main st, franklin, tn'', Str ''1 Main St, Franklin, TN'') (\<lambda>k. None, st0))
     ''1 main st, franklin, tn'' = None"
    by simp
  from f1 too_far_far force_franklin(1) center_near w1 n1 w2 g1 geocode_franklin_retry_fails w3
  show ?thesis by blast
qed




text \<open>
  C4. The displayed address of an emitted place. Nashville: always the address built
  from the feed. Portland: the feed's address for a row with coordinates or without an
  address, and otherwise the geocoder's \<open>formatted\<close> value when it is truthy. San Francisco
  with the box: when the feed has a street, \<open>withCityState\<close> of the street, which appends
  \<open>", San Francisco, CA"\<close> unless the text holds \<open>"san francisco"\<close>, \<open>" ca"\<close> or
  \<open>"california"\<close>; when it has none, \<open>withCityState\<close> of the geocoder's \<open>formatted\<close> value
  if that is a string that looks like a street address, and \<open>"San Francisco, CA"\<close> if
  there is no result or its \<open>formatted\<close> value does not look like one.
\<close>

theorem display_address_sources:
  "(nash_place res r = Some p \<longrightarrow> p_address p = Str (displayAddress r)) \<and>
   (pdx_place h gres pr = Some pp \<longrightarrow>
      p_address pp =
        (if has_coords pr \<or> \<not> truthy (r_address pr) then r_address pr
         else case gres (normalizeAddressV h (r_address pr)) of
                Some g \<Rightarrow> or_else (formatted g) (r_address pr)
              | None \<Rightarrow> r_address pr)) \<and>
   (sf_place h conf sres sr = Inr (Some sp) \<and> trim (streetFromDataset sr) \<noteq> [] \<longrightarrow>
      p_address sp = Str (sf_withCityState (trim (streetFromDataset sr)))) \<and>
   (\<forall>g f. sf_place h conf sres tr = Inr (Some tp) \<and> trim (streetFromDataset tr) = [] \<and>
          sres (sf_query_key tr) = Some g \<and> formatted g = Str f \<and>
          looksStreetSpecific h (Str f) \<longrightarrow>
      p_address tp = Str (sf_withCityState f)) \<and>
   (sf_place h conf sres tr = Inr (Some tp) \<and> trim (streetFromDataset tr) = [] \<and>
    (case sres (sf_query_key tr) of
       None \<Rightarrow> True
     | Some g \<Rightarrow> \<not> looksStreetSpecific h (formatted g)) \<longrightarrow>
      p_address tp = Str ''San Francisco, CA'')"
proof -
  have 1: "nash_place res r = Some p \<longrightarrow> p_address p = Str (displayAddress r)"
    by (auto simp: nash_place_def split: if_splits option.splits)
  have 2: "pdx_place h gres pr = Some pp \<longrightarrow>
      p_address pp =
        (if has_coords pr \<or> \<not> truthy (r_address pr) then r_address pr
         else case gres (normalizeAddressV h (r_address pr)) of
                Some g \<Rightarrow> or_else (formatted g) (r_address pr)
              | None \<Rightarrow> r_address pr)"
    by (auto simp: pdx_place_def Let_def split: if_splits option.splits)
  have 3: "sf_place h conf sres sr = Inr (Some sp) \<and> trim (streetFromDataset sr) \<noteq> [] \<longrightarrow>
      p_address sp = Str (sf_withCityState (trim (streetFromDataset sr)))"
  proof (intro impI, elim conjE)
    assume a: "sf_place h conf sres sr = Inr (Some sp)" and b: "trim (streetFromDataset sr) \<noteq> []"
    from b have "sf_withCityStateV (sf_display h sres sr)
                 = Inr (sf_withCityState (trim (streetFromDataset sr)))"
      by (simp add: sf_display_def sf_withCityStateV_def)
    with a show "p_address sp = Str (sf_withCityState (trim (streetFromDataset sr)))"
      by (auto simp: sf_place_def Let_def split: if_splits)
  qed
  have d: "sf_display h sres tr =
             (case sres (sf_query_key tr) of
                Some g \<Rightarrow> if looksStreetSpecific h (formatted g) then formatted g else Str []
              | None \<Rightarrow> Str [])"
    if "trim (streetFromDataset tr) = []"
    using that looks_undefined [of h]
    by (simp add: sf_display_def Let_def split: option.splits)
  have 4: "\<forall>g f. sf_place h conf sres tr = Inr (Some tp) \<and> trim (streetFromDataset tr) = [] \<and>
          sres (sf_query_key tr) = Some g \<and> formatted g = Str f \<and>
          looksStreetSpecific h (Str f) \<longrightarrow>
      p_address tp = Str (sf_withCityState f)"
  proof (intro allI impI, elim conjE)
    fix g f
    assume a: "sf_place h conf sres tr = Inr (Some tp)" and b: "trim (streetFromDataset tr) = []"
      and g: "sres (sf_query_key tr) = Some g" "formatted g = Str f" "looksStreetSpecific h (Str f)"
    from g(3) looks_empty [of h] have "f \<noteq> []" by auto
    with d [OF b] g have "sf_withCityStateV (sf_display h sres tr) = Inr (sf_withCityState f)"
      by (simp add: sf_withCityStateV_def)
    with a show "p_address tp = Str (sf_withCityState f)"
      by (auto simp: sf_place_def Let_def split: if_splits)
  qed
  have 5: "sf_place h conf sres tr = Inr (Some tp) \<and> trim (streetFromDataset tr) = [] \<and>
    (case sres (sf_query_key tr) of
       None \<Rightarrow> True
     | Some g \<Rightarrow> \<not> looksStreetSpecific h (formatted g)) \<longrightarrow>
      p_address tp = Str ''San Francisco, CA''"
  proof (intro impI, elim conjE)
    assume a: "sf_place h conf sres tr = Inr (Some tp)" and b: "trim (streetFromDataset tr) = []"
      and c: "case sres (sf_query_key tr) of None \<Rightarrow> True
              | Some g \<Rightarrow> \<not> looksStreetSpecific h (formatted g)"
    from d [OF b] c have "sf_withCityStateV (sf_display h sres tr) = Inr ''San Francisco, CA''"
      by (simp add: sf_withCityStateV_def split: option.splits)
    with a show "p_address tp = Str ''San Francisco, CA''"
      by (auto simp: sf_place_def Let_def split: if_splits)
  qed
  from 1 2 3 4 5 show ?thesis by blast
qed

text \<open>
  One row for each case: Nashville, Portland geocoded, San Francisco with a street,
  San Francisco without one, and the street \<open>"100 Cabrillo St"\<close>, which is displayed as it
  is because it holds \<open>" ca"\<close>.
\<close>

theorem display_address_sources_witness:
  "nash_place (\<lambda>k. Some center_result) nash_demo_row
     = Some \<lparr>p_lat = Fin 36.1627, p_lon = Fin (- 86.7816), p_address = Str ''5th Ave, Nashville, TN'',
             p_callTimeReceived = Undefined, p_updatedAt = Undefined\<rparr> \<and>
   pdx_place demo_host (\<lambda>k. Some pdx_result) geocoded_row
     = Some \<lparr>p_lat = Fin 45.5, p_lon = Fin (- 122.6),
             p_address = Str ''Southwest 5th Avenue, Portland, OR 97204, USA'',
             p_callTimeReceived = Undefined, p_updatedAt = Undefined\<rparr> \<and>
   sf_place demo_host SF_BBOX_default (\<lambda>k. None) sf_street_row
     = Inr (Some \<lparr>p_lat = Fin 37.77, p_lon = Fin (- 122.42),
                  p_address = Str ''1 Market St, San Francisco, CA'',
                  p_callTimeReceived = Undefined, p_updatedAt = Undefined\<rparr>) \<and>
   trim (streetFromDataset sf_street_row) \<noteq> [] \<and>
   sf_place demo_host SF_BBOX_default (\<lambda>k. Some sf_hall_result) sf_bare_row
     = Inr (Some \<lparr>p_lat = Fin 37.7793, p_lon = Fin (- 122.4193),
                  p_address = Str ''1 Dr Carlton B Goodlett Pl, San Francisco, CA 94102'',
                  p_callTimeReceived = Undefined, p_updatedAt = Undefined\<rparr>) \<and>
   trim (streetFromDataset sf_bare_row) = [] \<and>
   sf_place demo_host SF_BBOX_default (\<lambda>k. None) sf_cabrillo_row
     = Inr (Some \<lparr>p_lat = Fin 37.775, p_lon = Fin (- 122.49), p_address = Str ''100 Cabrillo St'',
                  p_callTimeReceived = Undefined, p_updatedAt = Undefined\<rparr>)"
proof -
  have s1: "trim (streetFromDataset sf_street_row) \<noteq> []"
    by (simp add: sf_street_row_def sf_strings)
  have s2: "trim (streetFromDataset sf_bare_row) = []"
    by (simp add: sf_bare_row_def trim_Nil)
  note t = display_address_sources
          [where res = "\<lambda>k. Some center_result" and r = nash_demo_row and h = demo_host
             and gres = "\<lambda>k. Some pdx_result" and pr = geocoded_row and conf = SF_BBOX_default
             and sres = "\<lambda>k. None" and sr = sf_street_row]
  from t nash_demo_place geocoded_place [of demo_host] sf_street_place [of demo_host]
    sf_bare_place [of demo_host] s1 s2 sf_cabrillo_place [of demo_host]
  show ?thesis by blast
qed

text \<open>
  The Portland feed with the rows \<open>"5th Ave"\<close> and \<open>"5th   ave"\<close>: both places display the
  geocoder's \<open>formatted\<close> value.
\<close>

theorem pdx_displays_formatted:
  "map p_address (fst (pdx_pipeline demo_host (answering PDX_BODY) pdx_demo_rows st0))
     = [Str ''Southwest 5th Avenue, Portland, OR 97204, USA'',
        Str ''Southwest 5th Avenue, Portland, OR 97204, USA'']"
  by (simp add: pdx_demo_pipeline)




text \<open>
  C6. The description \<open>"Theft at 123 Main St, Sunday, August 17, 2025 4:20 PM [Portland
  Police #PP1]"\<close>: the clean address is \<open>"123 Main St,"\<close>, with the comma that preceded the
  timestamp; the incident id is \<open>"PP1"\<close>; the time is the timestamp read with the offset
  \<open>GMT-0700\<close>, or with \<open>GMT-0800\<close> when that does not parse.
\<close>

theorem parseKmlDescription_scenario:
  "parseKmlDescription h ''Theft at 123 Main St, Sunday, August 17, 2025 4:20 PM [Portland Police #PP1]''
     = \<lparr>cleanAddress = ''123 Main St,'', incidentId = Some ''PP1'',
        updatedAt = tryParse h ''Sunday, August 17, 2025 4:20 PM''\<rparr>"
  by code_simp



text \<open>
  C8. \<open>fetchCity\<close> of the Portland adapter on a feed that is sniffed as KML raises when the
  XML parser rejects the text, and raises a TypeError when a description is an object
  with a property named \<open>toString\<close>: \<open>parseKML\<close> runs outside any \<open>try\<close>. On a feed that is
  not KML it never raises, because the JSON parser runs under \<open>try\<close> and the HTML parser
  returns rows for every text; a text that is neither KML, JSON nor HTML gives no place.
\<close>

theorem fetchCity_raises_on_kml:
  assumes "url_set (PORTLAND_URL env)" and "statusCode (pdx_feed env) < 400"
  shows "(is_kml (body (pdx_feed env)) \<and> XML_parse h (body (pdx_feed env)) = None \<longrightarrow>
            pdx_fetchCity h genv env st = (Inl ParserError, st)) \<and>
         (\<forall>kvs. is_kml (body (pdx_feed env)) \<and>
                XML_parse h (body (pdx_feed env))
                  = Some (Obj [(''kml'', Obj [(''Document'', Obj [(''Placemark'',
                       Obj [(''description'', Obj kvs)])])])]) \<and>
                map_of kvs ''toString'' \<noteq> None \<longrightarrow>
            pdx_fetchCity h genv env st = (Inl TypeError, st)) \<and>
         (\<not> is_kml (body (pdx_feed env)) \<longrightarrow>
            (\<exists>places st'. pdx_fetchCity h genv env st = (Inr places, st'))) \<and>
         (\<not> is_kml (body (pdx_feed env)) \<and> JSON_parse h (body (pdx_feed env)) = None \<and>
          \<not> is_html (body (pdx_feed env)) \<longrightarrow>
            pdx_fetchCity h genv env st = (Inr [], st))"
proof -
  let ?t = "body (pdx_feed env)"
  have 1: "is_kml ?t \<and> XML_parse h ?t = None \<longrightarrow>
            pdx_fetchCity h genv env st = (Inl ParserError, st)"
    using assms by (simp add: pdx_fetchCity_def pdx_rows_def parseKML_def)
  have 2: "\<forall>kvs. is_kml ?t \<and>
                XML_parse h ?t
                  = Some (Obj [(''kml'', Obj [(''Document'', Obj [(''Placemark'',
                       Obj [(''description'', Obj kvs)])])])]) \<and>
                map_of kvs ''toString'' \<noteq> None \<longrightarrow>
            pdx_fetchCity h genv env st = (Inl TypeError, st)"
  proof (intro allI impI)
    fix kvs
    assume a: "is_kml ?t \<and>
                XML_parse h ?t
                  = Some (Obj [(''kml'', Obj [(''Document'', Obj [(''Placemark'',
                       Obj [(''description'', Obj kvs)])])])]) \<and>
                map_of kvs ''toString'' \<noteq> None"
    have "kml_row h (Obj [(''description'', Obj kvs)]) = Inl TypeError"
      by (rule kml_row_toString [of _ kvs]) (use a in simp_all)
    then have "parseKML h ?t = Inl TypeError"
      using a by (simp add: parseKML_def or_else_def)
    then show "pdx_fetchCity h genv env st = (Inl TypeError, st)"
      using assms a by (simp add: pdx_fetchCity_def pdx_rows_def)
  qed
  have 3: "\<not> is_kml ?t \<longrightarrow> (\<exists>places st'. pdx_fetchCity h genv env st = (Inr places, st'))"
  proof
    assume "\<not> is_kml ?t"
    from pdx_rows_not_kml [OF this] obtain rows where "pdx_rows h ?t = Inr rows" by blast
    then show "\<exists>places st'. pdx_fetchCity h genv env st = (Inr places, st')"
      using assms by (simp add: pdx_fetchCity_def case_prod_beta)
  qed
  have 4: "\<not> is_kml ?t \<and> JSON_parse h ?t = None \<and> \<not> is_html ?t \<longrightarrow>
            pdx_fetchCity h genv env st = (Inr [], st)"
    using assms
    by (auto simp: pdx_fetchCity_def pdx_rows_plain pdx_pipeline_def pdx_needGeo_def
        pdx_uniqueMap_def pdx_places_def List.map_filter_simps)
  from 1 2 3 4 show ?thesis by blast
qed

text \<open>
  The feed \<open>"<kml><!-- unclosed"\<close>, which the XML parser rejects, and a well-formed feed
  whose description holds an element named \<open>toString\<close>.
\<close>

theorem fetchCity_raises_on_kml_witness:
  "is_kml KML_UNCLOSED \<and> XML_parse demo_host KML_UNCLOSED = None \<and>
   pdx_fetchCity demo_host (answering PDX_BODY) kml_unclosed_env st0 = (Inl ParserError, st0) \<and>
   is_kml KML_TOSTRING \<and> XML_parse demo_host KML_TOSTRING = Some kml_tostring_value \<and>
   pdx_fetchCity demo_host (answering PDX_BODY) kml_tostring_env st0 = (Inl TypeError, st0)"
proof -
  have x: "XML_parse demo_host KML_UNCLOSED = None"
    "XML_parse demo_host KML_TOSTRING = Some kml_tostring_value"
    by (simp_all add: demo_host_def demo_xml_def KML_UNCLOSED_def KML_TOSTRING_def)
  have u: "url_set (PORTLAND_URL kml_unclosed_env)" "statusCode (pdx_feed kml_unclosed_env) < 400"
    "body (pdx_feed kml_unclosed_env) = KML_UNCLOSED"
    by (simp_all add: kml_unclosed_env_def url_set_def)
  have v: "url_set (PORTLAND_URL kml_tostring_env)" "statusCode (pdx_feed kml_tostring_env) < 400"
    "body (pdx_feed kml_tostring_env) = KML_TOSTRING"
    by (simp_all add: kml_tostring_env_def url_set_def)
  have m: "map_of [(''toString'', Str ''x'')] ''toString'' \<noteq> None" by simp
  from fetchCity_raises_on_kml [OF u(1,2), of demo_host "answering PDX_BODY" st0] is_kml_demo(1) x(1)
  have a: "pdx_fetchCity demo_host (answering PDX_BODY) kml_unclosed_env st0 = (Inl ParserError, st0)"
    unfolding u(3) by blast
  from fetchCity_raises_on_kml [OF v(1,2), of demo_host "answering PDX_BODY" st0] is_kml_demo(2) x(2) m
  have b: "pdx_fetchCity demo_host (answering PDX_BODY) kml_tostring_env st0 = (Inl TypeError, st0)"
    unfolding v(3) kml_tostring_value_def by blast
  from is_kml_demo x a b show ?thesis by blast
qed

text \<open>
  C9. Address normalization is idempotent on every string of UTF-16 code units, with the
  white space of ECMA-262 and a \<open>toLowerCase\<close> of which the three properties of \<open>lowering\<close>
  are used. On ASCII text the byte strings of the adapters agree with the code units,
  and on byte strings normalization is idempotent too.
\<close>

theorem normalizeAddress_idempotent:
  assumes "lowering toLowerCase16"
  shows "normalizeAddress16 toLowerCase16 (normalizeAddress16 toLowerCase16 x)
           = normalizeAddress16 toLowerCase16 x \<and>
         (ascii s \<and> (\<forall>t. ascii t \<longrightarrow> toLowerCase16 (units t) = units (toLowerCase t)) \<longrightarrow>
            units (normalizeAddress s) = normalizeAddress16 toLowerCase16 (units s)) \<and>
         normalizeAddress (normalizeAddress s) = normalizeAddress s"
proof -
  have 1: "normalizeAddress16 toLowerCase16 (normalizeAddress16 toLowerCase16 x)
           = normalizeAddress16 toLowerCase16 x"
    by (rule normalizeAddress16_idem [OF assms])
  have 2: "ascii s \<and> (\<forall>t. ascii t \<longrightarrow> toLowerCase16 (units t) = units (toLowerCase t)) \<longrightarrow>
            units (normalizeAddress s) = normalizeAddress16 toLowerCase16 (units s)"
    using normalizeAddress_units [of s toLowerCase16] by metis
  have 3: "normalizeAddress (normalizeAddress s) = normalizeAddress s"
    by (rule normalizeAddress_idem_bytes)
  from 1 2 3 show ?thesis by blast
qed

text \<open>
  With the lowering of the letters A to Z: \<open>"5th"\<close>, two no-break spaces and \<open>"Ave"\<close>
  normalize to \<open>"5th ave"\<close>, which normalizes to itself.
\<close>

theorem normalizeAddress_idempotent_witness:
  "lowering ascii_lower16 \<and>
   normalizeAddress16 ascii_lower16 (units ''5th'' @ [0xA0, 0xA0] @ units ''Ave'') = units ''5th ave'' \<and>
   normalizeAddress16 ascii_lower16 (units ''5th ave'') = units ''5th ave''"
proof -
  from normalizeAddress_idempotent [OF lowering_ascii,
      of "units ''5th'' @ [0xA0, 0xA0] @ units ''Ave''"]
  have "normalizeAddress16 ascii_lower16
          (normalizeAddress16 ascii_lower16 (units ''5th'' @ [0xA0, 0xA0] @ units ''Ave''))
        = normalizeAddress16 ascii_lower16 (units ''5th'' @ [0xA0, 0xA0] @ units ''Ave'')"
    by blast
  then have "normalizeAddress16 ascii_lower16 (units ''5th ave'') = units ''5th ave''"
    unfolding nbsp_example .
  with lowering_ascii nbsp_example show ?thesis by blast
qed

text \<open>
  C10. With the box enforced, the results that the workers store lie inside the box, and
  every place that \<open>fetchCity\<close> returns has finite coordinates inside the box. The default
  box is latitude 37.55 to 37.95 and longitude -122.60 to -122.20.
\<close>

theorem sf_places_in_box:
  assumes "ENFORCE_BBOX conf"
  shows "stored_in_box conf (fst (sf_geocode_all h genv conf uniq st)) \<and>
         (\<forall>places st'. sf_fetchCity h genv conf res st = (Inr places, st') \<longrightarrow>
            (\<forall>p \<in> set places. isFinite (p_lat p) \<and> isFinite (p_lon p) \<and>
                               in_box conf (p_lat p) (p_lon p))) \<and>
         (in_box SF_BBOX_default (Fin a) (Fin b) \<longleftrightarrow>
            37.55 \<le> a \<and> a \<le> 37.95 \<and> - 122.60 \<le> b \<and> b \<le> - 122.20)"
proof -
  have 1: "stored_in_box conf (fst (sf_geocode_all h genv conf uniq st))"
    unfolding sf_geocode_all_def
    by (rule sf_foldl_box [OF assms]) (simp add: stored_in_box_def)
  have pl: "isFinite (p_lat p) \<and> isFinite (p_lon p) \<and> in_box conf (p_lat p) (p_lon p)"
    if "sf_place h conf gr r = Inr (Some p)" for gr r p
    using that inSF_box [OF assms, of "fst (sf_coords gr r)" "snd (sf_coords gr r)"]
    by (auto simp: sf_place_def Let_def split: if_splits sum.splits)
  have ps: "isFinite (p_lat p) \<and> isFinite (p_lon p) \<and> in_box conf (p_lat p) (p_lon p)"
    if "sf_places h conf gr prelim = Inr places" "p \<in> set places" for gr prelim places p
  proof -
    from that obtain xs where xs: "map_err (sf_place h conf gr) prelim = Inr xs"
      and "places = List.map_filter id xs"
      by (auto simp: sf_places_def split: sum.splits)
    with that have "Some p \<in> set xs" by (simp add: map_filter_id_set)
    from map_err_set [OF xs this] obtain r where "sf_place h conf gr r = Inr (Some p)" by blast
    then show ?thesis by (rule pl)
  qed
  have 2: "\<forall>places st'. sf_fetchCity h genv conf res st = (Inr places, st') \<longrightarrow>
            (\<forall>p \<in> set places. isFinite (p_lat p) \<and> isFinite (p_lon p) \<and>
                               in_box conf (p_lat p) (p_lon p))"
    using ps
    by (auto simp: sf_fetchCity_def split: if_splits option.splits sum.splits prod.splits)
  have 3: "in_box SF_BBOX_default (Fin a) (Fin b) \<longleftrightarrow>
            37.55 \<le> a \<and> a \<le> 37.95 \<and> - 122.60 \<le> b \<and> b \<le> - 122.20"
    by (simp add: in_box_def SF_BBOX_default_def)
  from 1 2 3 show ?thesis by blast
qed

text \<open>
  A feed of two rows with the default box: the row at \<open>(37.77, -122.42)\<close> is emitted;
  the row without coordinates is geocoded to Portland, which is not stored, and dropped.
\<close>

theorem sf_places_in_box_witness:
  "ENFORCE_BBOX SF_BBOX_default \<and>
   fst (sf_fetchCity demo_host (answering PDX_BODY) SF_BBOX_default
          \<lparr>statusCode = 200, body = SF_FEED\<rparr> st0)
     = Inr [\<lparr>p_lat = Fin 37.77, p_lon = Fin (- 122.42),
              p_address = Str ''1 Market St, San Francisco, CA'',
              p_callTimeReceived = Undefined, p_updatedAt = Undefined\<rparr>] \<and>
   in_box SF_BBOX_default (Fin 37.77) (Fin (- 122.42)) \<and>
   fst (sf_geocode_all demo_host (answering PDX_BODY) SF_BBOX_default
          [(''5th ave, san francisco, ca'', Str ''5th Ave, San Francisco, CA'')] st0) = (\<lambda>k. None)"
proof -
  have e: "ENFORCE_BBOX SF_BBOX_default" by (simp add: SF_BBOX_default_def)
  let ?r = "sf_fetchCity demo_host (answering PDX_BODY) SF_BBOX_default
          \<lparr>statusCode = 200, body = SF_FEED\<rparr> st0"
  let ?p = "\<lparr>p_lat = Fin 37.77, p_lon = Fin (- 122.42),
              p_address = Str ''1 Market St, San Francisco, CA'',
              p_callTimeReceived = Undefined, p_updatedAt = Undefined\<rparr>"
  have r: "?r = (Inr [?p], snd ?r)"
    using sf_demo_fetch by (cases ?r) simp
  from sf_places_in_box [OF e, where h = demo_host and genv = "answering PDX_BODY" and uniq = "[]"
      and st = st0 and res = "\<lparr>statusCode = 200, body = SF_FEED\<rparr>"] r
  have "\<forall>p \<in> set [?p]. isFinite (p_lat p) \<and> isFinite (p_lon p) \<and> in_box SF_BBOX_default (p_lat p) (p_lon p)"
    by blast
  then have b: "in_box SF_BBOX_default (Fin 37.77) (Fin (- 122.42))" by simp
  from e sf_demo_fetch b sf_demo_geocode show ?thesis by blast
qed

end
